theory Spec2Isabelle
  imports Complex_Main "HOL-Library.Char_ord" "HOL-Library.List_Lexorder"
    "HOL-Library.Product_Lexorder"
begin

section \<open>Values of the Python program\<close>

text \<open>
  The program \<^verbatim>\<open>ImportBodyComposition2GarminConnect.py\<close> reads its settings from a JSON
  document, reads CSV files with pandas, and keeps the accepted rows in a pandas data frame.
  Three kinds of values occur: the exceptions that are raised, the JSON values of the
  settings document, and the scalar values held in the cells of a data frame.

  Strings are byte strings here (\<^typ>\<open>string\<close>); the digits of \<^verbatim>\<open>\d\<close> are the ASCII digits.
  A Python \<^verbatim>\<open>float\<close> is kept as the exact rational number its decimal text denotes
  (plus infinities and NaN); rounding to binary64 is not modelled, nor the overflow of a
  huge number to infinity or the underflow of a tiny one to zero.
\<close>

datatype exn =
    SystemExit string
  | KeyError
  | TypeError
  | ValueError
  | AttributeError
  | IOError
  | RemoteError

text \<open>\<^verbatim>\<open>except Exception\<close> catches every exception class of the program but
  \<^verbatim>\<open>SystemExit\<close>, which derives from \<^verbatim>\<open>BaseException\<close>.\<close>

fun is_Exception :: "exn \<Rightarrow> bool" where
  "is_Exception (SystemExit m) = False"
| "is_Exception e = True"

datatype pyfloat = FNum rat | FInf | FNegInf | FNaN

datatype json =
    JNull
  | JBool bool
  | JInt int
  | JFloat pyfloat
  | JStr string
  | JArr "json list"
  | JObj "(string \<times> json) list"

record timestamp =
  year :: nat
  month :: nat
  day :: nat
  hour :: nat
  minute :: nat
  second :: nat
  microsecond :: nat
  nanosecond :: nat

text \<open>The cell values of a data frame: what \<^verbatim>\<open>pd.read_csv\<close> yields (strings, numbers,
  booleans, NaN for an empty cell), what \<^verbatim>\<open>pd.to_datetime\<close> yields (a \<^verbatim>\<open>Timestamp\<close> or
  \<^verbatim>\<open>NaT\<close>), and \<^verbatim>\<open>None\<close>, the value of an absent field.\<close>

datatype pyval =
    PNone
  | PBool bool
  | PInt int
  | PFloat pyfloat
  | PStr string
  | PTimestamp timestamp
  | PNaT

text \<open>A row of a frame (the \<^verbatim>\<open>Series\<close> of \<^verbatim>\<open>iterrows\<close>) and a row of the record set
  (the dictionary \<^verbatim>\<open>rowOutput\<close>) are association lists from column names to cells.\<close>

type_synonym row = "(string \<times> pyval) list"

record dataframe =
  columns :: "string list"
  cells :: "pyval list list"

text \<open>Library behaviour that is left open: the text \<^verbatim>\<open>str\<close> gives a finite float (Python
  prints the shortest decimal that reads back as the same binary64 number), and the
  conversion of one cell by \<^verbatim>\<open>pd.to_datetime\<close> under the configured format.\<close>

record pylib =
  float_repr :: "rat \<Rightarrow> string"
  to_datetime :: "json \<Rightarrow> pyval \<Rightarrow> exn + pyval"

subsection \<open>Truth values and equality\<close>

fun float_truthy :: "pyfloat \<Rightarrow> bool" where
  "float_truthy (FNum q) = (q \<noteq> 0)"
| "float_truthy f = True"

fun json_truthy :: "json \<Rightarrow> bool" where
  "json_truthy JNull = False"
| "json_truthy (JBool b) = b"
| "json_truthy (JInt i) = (i \<noteq> 0)"
| "json_truthy (JFloat f) = float_truthy f"
| "json_truthy (JStr s) = (s \<noteq> [])"
| "json_truthy (JArr xs) = (xs \<noteq> [])"
| "json_truthy (JObj kvs) = (kvs \<noteq> [])"

text \<open>\<^verbatim>\<open>if row[key]\<close>: \<^verbatim>\<open>None\<close>, zero, the empty string and \<^verbatim>\<open>False\<close> are false; NaN, a
  \<^verbatim>\<open>Timestamp\<close> and \<^verbatim>\<open>NaT\<close> are true.\<close>

fun py_truthy :: "pyval \<Rightarrow> bool" where
  "py_truthy PNone = False"
| "py_truthy (PBool b) = b"
| "py_truthy (PInt i) = (i \<noteq> 0)"
| "py_truthy (PFloat f) = float_truthy f"
| "py_truthy (PStr s) = (s \<noteq> [])"
| "py_truthy (PTimestamp t) = True"
| "py_truthy PNaT = True"

fun float_eq :: "pyfloat \<Rightarrow> pyfloat \<Rightarrow> bool" where
  "float_eq (FNum a) (FNum b) = (a = b)"
| "float_eq FInf FInf = True"
| "float_eq FNegInf FNegInf = True"
| "float_eq a b = False"

fun num_of_pyval :: "pyval \<Rightarrow> pyfloat option" where
  "num_of_pyval (PBool b) = Some (FNum (if b then 1 else 0))"
| "num_of_pyval (PInt i) = Some (FNum (of_int i))"
| "num_of_pyval (PFloat f) = Some f"
| "num_of_pyval v = None"

fun num_of_json :: "json \<Rightarrow> pyfloat option" where
  "num_of_json (JBool b) = Some (FNum (if b then 1 else 0))"
| "num_of_json (JInt i) = Some (FNum (of_int i))"
| "num_of_json (JFloat f) = Some f"
| "num_of_json j = None"

text \<open>\<^verbatim>\<open>value == user\<close>, a cell against a settings value: numbers by value (NaN equals
  nothing), strings by their characters, \<^verbatim>\<open>None\<close> only \<^verbatim>\<open>null\<close>; a \<^verbatim>\<open>Timestamp\<close> and
  \<^verbatim>\<open>NaT\<close> equal no JSON value, and a list or a dictionary equals no cell.\<close>

definition py_eq_json :: "pyval \<Rightarrow> json \<Rightarrow> bool" where
  "py_eq_json v j =
     (case (num_of_pyval v, num_of_json j) of
        (Some a, Some b) \<Rightarrow> float_eq a b
      | (Some a, None) \<Rightarrow> False
      | (None, Some b) \<Rightarrow> False
      | (None, None) \<Rightarrow>
          (case (v, j) of
             (PStr s, JStr t) \<Rightarrow> s = t
           | (PNone, JNull) \<Rightarrow> True
           | _ \<Rightarrow> False))"

text \<open>\<^verbatim>\<open>==\<close> on the timestamp column: two \<^verbatim>\<open>Timestamp\<close>s are equal when they are the
  same instant; \<^verbatim>\<open>NaT\<close> equals nothing, itself included.\<close>

fun ts_eq :: "pyval \<Rightarrow> pyval \<Rightarrow> bool" where
  "ts_eq (PTimestamp a) (PTimestamp b) = (a = b)"
| "ts_eq a b = False"

subsection \<open>Characters, digits and decimal text\<close>

definition is_digit :: "char \<Rightarrow> bool" where
  "is_digit c = (48 \<le> (of_char c :: nat) \<and> (of_char c :: nat) \<le> 57)"

definition digit_val :: "char \<Rightarrow> nat" where
  "digit_val c = (of_char c :: nat) - 48"

definition digit_char :: "nat \<Rightarrow> char" where
  "digit_char n = char_of (48 + n)"

fun show_nat :: "nat \<Rightarrow> string" where
  "show_nat n = (if n < 10 then [digit_char n] else show_nat (n div 10) @ [digit_char (n mod 10)])"

definition show_int :: "int \<Rightarrow> string" where
  "show_int i = (if i < 0 then CHR ''-'' # show_nat (nat (- i)) else show_nat (nat i))"

definition zfill :: "nat \<Rightarrow> string \<Rightarrow> string" where
  "zfill k s = replicate (k - length s) (CHR ''0'') @ s"

definition is_space :: "char \<Rightarrow> bool" where
  "is_space c = ((9 \<le> (of_char c :: nat) \<and> (of_char c :: nat) \<le> 13) \<or> c = CHR '' '')"

definition strip :: "string \<Rightarrow> string" where
  "strip s = rev (dropWhile is_space (rev (dropWhile is_space s)))"

definition lower_char :: "char \<Rightarrow> char" where
  "lower_char c =
     (if 65 \<le> (of_char c :: nat) \<and> (of_char c :: nat) \<le> 90
      then char_of ((of_char c :: nat) + 32) else c)"

subsection \<open>The built-in \<^verbatim>\<open>float\<close> on a string\<close>

text \<open>
  The grammar of the Python documentation: optional sign, then \<^verbatim>\<open>inf\<close>, \<^verbatim>\<open>infinity\<close> or
  \<^verbatim>\<open>nan\<close> in any case, or a decimal number with an optional exponent; digit groups may be
  separated by single underscores; white space around the text is dropped. \<^const>\<open>None\<close>
  stands for \<^verbatim>\<open>ValueError\<close>.
\<close>

fun digitpart_rest :: "string \<Rightarrow> nat list \<times> string" where
  "digitpart_rest [] = ([], [])"
| "digitpart_rest [c] = (if is_digit c then ([digit_val c], []) else ([], [c]))"
| "digitpart_rest (c # d # cs) =
     (if is_digit c then
        (case digitpart_rest (d # cs) of (ds, r) \<Rightarrow> (digit_val c # ds, r))
      else if c = CHR ''_'' \<and> is_digit d then
        (case digitpart_rest cs of (ds, r) \<Rightarrow> (digit_val d # ds, r))
      else ([], c # d # cs))"

fun digitpart :: "string \<Rightarrow> nat list \<times> string" where
  "digitpart [] = ([], [])"
| "digitpart (c # cs) =
     (if is_digit c then (case digitpart_rest cs of (ds, r) \<Rightarrow> (digit_val c # ds, r))
      else ([], c # cs))"

definition nat_of_digits :: "nat list \<Rightarrow> nat" where
  "nat_of_digits ds = foldl (\<lambda>a d. 10 * a + d) 0 ds"

definition mantissa :: "nat list \<Rightarrow> nat list \<Rightarrow> rat" where
  "mantissa ip fp = of_nat (nat_of_digits ip) + of_nat (nat_of_digits fp) / 10 ^ length fp"

definition float_number :: "string \<Rightarrow> (rat \<times> string) option" where
  "float_number s =
     (case digitpart s of
        (ip, r) \<Rightarrow>
          if ip \<noteq> [] then
            (case r of
               [] \<Rightarrow> Some (mantissa ip [], [])
             | c # r' \<Rightarrow>
                 if c = CHR ''.'' then
                   (case digitpart r' of (fp, r'') \<Rightarrow> Some (mantissa ip fp, r''))
                 else Some (mantissa ip [], r))
          else
            (case s of
               [] \<Rightarrow> None
             | c # r' \<Rightarrow>
                 if c = CHR ''.'' then
                   (case digitpart r' of
                      (fp, r'') \<Rightarrow> if fp \<noteq> [] then Some (mantissa [] fp, r'') else None)
                 else None))"

fun take_sign :: "string \<Rightarrow> bool \<times> string" where
  "take_sign [] = (False, [])"
| "take_sign (c # cs) =
     (if c = CHR ''-'' then (True, cs) else if c = CHR ''+'' then (False, cs)
      else (False, c # cs))"

definition float_exponent :: "string \<Rightarrow> int option" where
  "float_exponent s =
     (case s of
        [] \<Rightarrow> Some 0
      | c # r \<Rightarrow>
          if c = CHR ''e'' \<or> c = CHR ''E'' then
            (case take_sign r of
               (neg, r1) \<Rightarrow>
                 (case digitpart r1 of
                    (ds, r2) \<Rightarrow>
                      if ds \<noteq> [] \<and> r2 = [] then
                        Some (if neg then - int (nat_of_digits ds) else int (nat_of_digits ds))
                      else None))
          else None)"

definition pow10 :: "int \<Rightarrow> rat" where
  "pow10 e = (if 0 \<le> e then 10 ^ nat e else 1 / 10 ^ nat (- e))"

definition py_float_str :: "string \<Rightarrow> pyfloat option" where
  "py_float_str s =
     (case take_sign (strip s) of
        (neg, u) \<Rightarrow>
          if map lower_char u = ''inf'' \<or> map lower_char u = ''infinity'' then
            Some (if neg then FNegInf else FInf)
          else if map lower_char u = ''nan'' then Some FNaN
          else
            (case float_number u of
               None \<Rightarrow> None
             | Some (m, r) \<Rightarrow>
                 (case float_exponent r of
                    None \<Rightarrow> None
                  | Some e \<Rightarrow> Some (FNum ((if neg then - m else m) * pow10 e)))))"

text \<open>\<^verbatim>\<open>float(rowValue)\<close> on a cell: a string is parsed, a number converted; \<^verbatim>\<open>None\<close>, a
  \<^verbatim>\<open>Timestamp\<close> and \<^verbatim>\<open>NaT\<close> raise \<^verbatim>\<open>TypeError\<close>.\<close>

fun py_float :: "pyval \<Rightarrow> exn + pyfloat" where
  "py_float (PStr s) = (case py_float_str s of None \<Rightarrow> Inl ValueError | Some f \<Rightarrow> Inr f)"
| "py_float (PFloat f) = Inr f"
| "py_float (PInt i) = Inr (FNum (of_int i))"
| "py_float (PBool b) = Inr (FNum (if b then 1 else 0))"
| "py_float PNone = Inl TypeError"
| "py_float (PTimestamp t) = Inl TypeError"
| "py_float PNaT = Inl TypeError"

subsection \<open>Text of a cell: \<^verbatim>\<open>str\<close>, \<^verbatim>\<open>date().isoformat()\<close>\<close>

definition date_isoformat :: "timestamp \<Rightarrow> string" where
  "date_isoformat t =
     zfill 4 (show_nat (year t)) @ ''-'' @ zfill 2 (show_nat (month t)) @ ''-'' @
     zfill 2 (show_nat (day t))"

definition time_str :: "timestamp \<Rightarrow> string" where
  "time_str t =
     zfill 2 (show_nat (hour t)) @ '':'' @ zfill 2 (show_nat (minute t)) @ '':'' @
     zfill 2 (show_nat (second t)) @
     (if microsecond t = 0 \<and> nanosecond t = 0 then []
      else ''.'' @ zfill 6 (show_nat (microsecond t)) @
        (if nanosecond t = 0 then [] else zfill 3 (show_nat (nanosecond t))))"

fun py_str :: "pylib \<Rightarrow> pyval \<Rightarrow> string" where
  "py_str L PNone = ''None''"
| "py_str L (PBool b) = (if b then ''True'' else ''False'')"
| "py_str L (PInt i) = show_int i"
| "py_str L (PFloat (FNum q)) = float_repr L q"
| "py_str L (PFloat FInf) = ''inf''"
| "py_str L (PFloat FNegInf) = ''-inf''"
| "py_str L (PFloat FNaN) = ''nan''"
| "py_str L (PStr s) = s"
| "py_str L (PTimestamp t) = date_isoformat t @ '' '' @ time_str t"
| "py_str L PNaT = ''NaT''"

text \<open>\<^verbatim>\<open>x.date().isoformat()\<close>: the ISO date of a \<^verbatim>\<open>Timestamp\<close>; \<^verbatim>\<open>NaT.date()\<close> is
  \<^verbatim>\<open>NaT\<close> again, whose \<^verbatim>\<open>isoformat()\<close> is the text \<^verbatim>\<open>NaT\<close>; any other value has no
  attribute \<^verbatim>\<open>date\<close>.\<close>

fun py_date_isoformat :: "pyval \<Rightarrow> exn + string" where
  "py_date_isoformat (PTimestamp t) = Inr (date_isoformat t)"
| "py_date_isoformat PNaT = Inr ''NaT''"
| "py_date_isoformat v = Inl AttributeError"

subsection \<open>The three regular expressions\<close>

text \<open>
  \<^verbatim>\<open>re.search\<close> is modelled by a backtracking matcher for the fragment the program uses:
  a pattern is a sequence of items over three character classes, each item a single
  character, an optional one (\<^verbatim>\<open>?\<close>), a greedy repetition (\<^verbatim>\<open>*\<close>, \<^verbatim>\<open>+\<close>) or the anchor
  \<^verbatim>\<open>^\<close>. In each of the three patterns group 1 spans the whole match, so the matcher
  returns the matched text.
\<close>

datatype cclass = Digit | Dot | DigitOrDot

datatype item = Caret | One cclass | Opt cclass | Star cclass | Plus cclass

fun in_class :: "cclass \<Rightarrow> char \<Rightarrow> bool" where
  "in_class Digit c = is_digit c"
| "in_class Dot c = (c = CHR ''.'')"
| "in_class DigitOrDot c = (is_digit c \<or> c = CHR ''.'')"

text \<open>\<open>match_here b p s\<close>: the first match, in the order a backtracking matcher tries them
  (longest repetition first), of pattern \<open>p\<close> at the head of \<open>s\<close>; \<open>b\<close> says that \<open>s\<close> is the
  whole subject string, where \<^verbatim>\<open>^\<close> matches.\<close>

fun match_here :: "bool \<Rightarrow> item list \<Rightarrow> string \<Rightarrow> string option" where
  "match_here b [] s = Some []"
| "match_here b (Caret # p) s = (if b then match_here b p s else None)"
| "match_here b (One c # p) [] = None"
| "match_here b (One c # p) (x # xs) =
     (if in_class c x then map_option ((#) x) (match_here False p xs) else None)"
| "match_here b (Opt c # p) [] = match_here b p []"
| "match_here b (Opt c # p) (x # xs) =
     (if in_class c x then
        (case match_here False p xs of
           Some m \<Rightarrow> Some (x # m)
         | None \<Rightarrow> match_here b p (x # xs))
      else match_here b p (x # xs))"
| "match_here b (Star c # p) [] = match_here b p []"
| "match_here b (Star c # p) (x # xs) =
     (if in_class c x then
        (case match_here False (Star c # p) xs of
           Some m \<Rightarrow> Some (x # m)
         | None \<Rightarrow> match_here b p (x # xs))
      else match_here b p (x # xs))"
| "match_here b (Plus c # p) [] = None"
| "match_here b (Plus c # p) (x # xs) =
     (if in_class c x then map_option ((#) x) (match_here False (Star c # p) xs) else None)"

fun re_search_from :: "bool \<Rightarrow> item list \<Rightarrow> string \<Rightarrow> string option" where
  "re_search_from b p [] = match_here b p []"
| "re_search_from b p (x # xs) =
     (case match_here b p (x # xs) of
        Some m \<Rightarrow> Some m
      | None \<Rightarrow> re_search_from False p xs)"

definition re_search :: "item list \<Rightarrow> string \<Rightarrow> string option" where
  "re_search p s = re_search_from True p s"

definition weight_regex :: "item list" where
  "weight_regex = [Caret, Plus DigitOrDot]"

definition kcal_regex :: "item list" where
  "kcal_regex = [Plus Digit, Opt Dot, Star Digit]"

definition percent_regex :: "item list" where
  "percent_regex = [Plus Digit, One Dot, Plus Digit]"

section \<open>The mapping engine\<close>

subsection \<open>Lookups in JSON values and in a row\<close>

fun is_infix :: "string \<Rightarrow> string \<Rightarrow> bool" where
  "is_infix k [] = (k = [])"
| "is_infix k (c # cs) = (take (length k) (c # cs) = k \<or> is_infix k cs)"

text \<open>\<^verbatim>\<open>key in j\<close> for a string key: a key of a dictionary, a substring of a string, an
  element of a list; \<^verbatim>\<open>TypeError\<close> for a value that is not a container.\<close>

fun json_contains :: "string \<Rightarrow> json \<Rightarrow> exn + bool" where
  "json_contains k (JObj kvs) = Inr (map_of kvs k \<noteq> None)"
| "json_contains k (JStr s) = Inr (is_infix k s)"
| "json_contains k (JArr xs) = Inr (JStr k \<in> set xs)"
| "json_contains k j = Inl TypeError"

text \<open>\<^verbatim>\<open>j[key]\<close> for a string key: the entry of a dictionary (\<^verbatim>\<open>KeyError\<close> when it has
  none); \<^verbatim>\<open>TypeError\<close> for every other value.\<close>

fun json_getitem :: "json \<Rightarrow> string \<Rightarrow> exn + json" where
  "json_getitem (JObj kvs) k = (case map_of kvs k of None \<Rightarrow> Inl KeyError | Some v \<Rightarrow> Inr v)"
| "json_getitem j k = Inl TypeError"

text \<open>\<^verbatim>\<open>name in row\<close> on a \<^verbatim>\<open>Series\<close> asks for a label: a string is looked up among the
  column names, a list or dictionary is unhashable (\<^verbatim>\<open>TypeError\<close>), any other value is
  not a label of a frame read from CSV.\<close>

fun series_contains :: "row \<Rightarrow> json \<Rightarrow> exn + bool" where
  "series_contains r (JStr n) = Inr (map_of r n \<noteq> None)"
| "series_contains r (JArr xs) = Inl TypeError"
| "series_contains r (JObj kvs) = Inl TypeError"
| "series_contains r j = Inr False"

fun series_getitem :: "row \<Rightarrow> json \<Rightarrow> exn + pyval" where
  "series_getitem r (JStr n) = (case map_of r n of None \<Rightarrow> Inl KeyError | Some v \<Rightarrow> Inr v)"
| "series_getitem r j = Inl KeyError"

definition bind :: "exn + 'a \<Rightarrow> ('a \<Rightarrow> exn + 'b) \<Rightarrow> exn + 'b" where
  "bind m f = (case m of Inl e \<Rightarrow> Inl e | Inr x \<Rightarrow> f x)"

subsection \<open>\<^verbatim>\<open>getMappingColumnValue\<close>\<close>

text \<open>The regular expression chosen for a rule type (lines 223 to 228).\<close>

definition regex_of_type :: "json \<Rightarrow> item list option" where
  "regex_of_type colType =
     (if colType = JStr ''weight'' then Some weight_regex
      else if colType = JStr ''kcal'' then Some kcal_regex
      else if colType = JStr ''percent'' then Some percent_regex
      else None)"

text \<open>Lines 221 to 238, once \<^verbatim>\<open>rowValue\<close> and \<^verbatim>\<open>colType\<close> are known.\<close>

definition coerce :: "pylib \<Rightarrow> json \<Rightarrow> pyval \<Rightarrow> exn + pyval" where
  "coerce L colType rowValue =
     (case regex_of_type colType of
        Some regex \<Rightarrow>
          (case re_search regex (py_str L rowValue) of
             None \<Rightarrow> Inr PNone
           | Some g \<Rightarrow>
               (case py_float_str g of
                  None \<Rightarrow> Inl ValueError
                | Some f \<Rightarrow> Inr (PFloat f)))
      | None \<Rightarrow>
          if colType = JStr ''value'' then bind (py_float rowValue) (\<lambda>f. Inr (PFloat f))
          else Inr rowValue)"

text \<open>The body of the \<^verbatim>\<open>try\<close> statement (lines 213 to 240), with the exceptions it can
  raise.\<close>

definition getMappingColumnValue_try ::
  "pylib \<Rightarrow> (string \<times> json) list \<Rightarrow> row \<Rightarrow> string \<Rightarrow> exn + pyval" where
  "getMappingColumnValue_try L mapInfo r columnName =
     (case map_of mapInfo columnName of
        None \<Rightarrow> Inr PNone
      | Some rule \<Rightarrow>
          bind (json_contains ''name'' rule) (\<lambda>has_name.
            if \<not> has_name then Inr PNone
            else
              bind (json_getitem rule ''name'') (\<lambda>name.
              bind (series_contains r name) (\<lambda>in_row.
                if \<not> in_row then Inr PNone
                else
                  bind (series_getitem r name) (\<lambda>rowValue.
                  bind (json_contains ''type'' rule) (\<lambda>has_type.
                  bind (if has_type then json_getitem rule ''type'' else Inr (JStr ''value''))
                    (\<lambda>colType. coerce L colType rowValue)))))))"

text \<open>The whole function: \<^verbatim>\<open>except ValueError\<close> and \<^verbatim>\<open>except Exception\<close> both set the
  value to \<^verbatim>\<open>None\<close>; an exception that is not an \<^verbatim>\<open>Exception\<close> would pass.\<close>

definition getMappingColumnValue ::
  "pylib \<Rightarrow> (string \<times> json) list \<Rightarrow> row \<Rightarrow> string \<Rightarrow> exn + pyval" where
  "getMappingColumnValue L mapInfo r columnName =
     (case getMappingColumnValue_try L mapInfo r columnName of
        Inr v \<Rightarrow> Inr v
      | Inl e \<Rightarrow>
          if e = ValueError then Inr PNone
          else if is_Exception e then Inr PNone
          else Inl e)"

subsection \<open>\<^verbatim>\<open>getMappingRowValues\<close> and \<^verbatim>\<open>validMandatoryValues\<close>\<close>

text \<open>The columns of \<^verbatim>\<open>self.BodyComposition\<close> (line 154).\<close>

definition bc_columns :: "string list" where
  "bc_columns =
     [''timestamp'', ''weight'', ''percent_fat'', ''percent_hydration'', ''visceral_fat_mass'',
      ''bone_mass'', ''muscle_mass'', ''basal_met'', ''active_met'', ''physique_rating'',
      ''metabolic_age'', ''visceral_fat_rating'', ''bmi'']"

fun getMappingRowValues_loop ::
  "pylib \<Rightarrow> (string \<times> json) list \<Rightarrow> row \<Rightarrow> string list \<Rightarrow> exn + row" where
  "getMappingRowValues_loop L mapInfo r [] = Inr []"
| "getMappingRowValues_loop L mapInfo r (key # keys) =
     bind (getMappingColumnValue L mapInfo r key) (\<lambda>v.
     bind (getMappingRowValues_loop L mapInfo r keys) (\<lambda>rowValues.
       Inr ((key, v) # rowValues)))"

definition getMappingRowValues :: "pylib \<Rightarrow> (string \<times> json) list \<Rightarrow> row \<Rightarrow> exn + row" where
  "getMappingRowValues L mapInfo r = getMappingRowValues_loop L mapInfo r bc_columns"

text \<open>\<^verbatim>\<open>row[key]\<close> of a row of the record set; every such row has all thirteen keys.\<close>

definition row_get :: "row \<Rightarrow> string \<Rightarrow> pyval" where
  "row_get r k = (case map_of r k of None \<Rightarrow> PNone | Some v \<Rightarrow> v)"

text \<open>Line 194 inside its \<^verbatim>\<open>try\<close>: a rule without the key \<^verbatim>\<open>mandatory\<close>, or a rule that is
  no dictionary, raises and gives \<^verbatim>\<open>False\<close>.\<close>

definition isMandatory :: "(string \<times> json) list \<Rightarrow> string \<Rightarrow> bool" where
  "isMandatory mapInfo key =
     (case map_of mapInfo key of
        None \<Rightarrow> False
      | Some rule \<Rightarrow>
          (case json_getitem rule ''mandatory'' of
             Inl e \<Rightarrow> False
           | Inr m \<Rightarrow> m = JStr ''True''))"

fun validMandatoryValues_loop :: "(string \<times> json) list \<Rightarrow> bool \<Rightarrow> row \<Rightarrow> bool" where
  "validMandatoryValues_loop mapInfo boolTest [] = boolTest"
| "validMandatoryValues_loop mapInfo boolTest ((key, v) # rest) =
     (if boolTest \<and> (py_truthy v \<or> \<not> isMandatory mapInfo key)
      then validMandatoryValues_loop mapInfo True rest
      else False)"

definition validMandatoryValues :: "(string \<times> json) list \<Rightarrow> row \<Rightarrow> bool" where
  "validMandatoryValues mapInfo r = validMandatoryValues_loop mapInfo True r"

section \<open>Settings and the state of the importer\<close>

text \<open>\<^verbatim>\<open>getPropertyValue\<close> (lines 156 to 165): every exception gives the default.\<close>

definition getPropertyValue :: "json \<Rightarrow> string \<Rightarrow> string \<Rightarrow> json \<Rightarrow> json" where
  "getPropertyValue jp sect property dflt =
     (case bind (json_getitem jp sect) (\<lambda>sec.
             bind (json_contains property sec) (\<lambda>has.
               if has then json_getitem sec property else Inr dflt)) of
        Inl e \<Rightarrow> dflt
      | Inr v \<Rightarrow> v)"

section \<open>The CSV normalizer\<close>

subsection \<open>Frames: columns, iteration, sorting\<close>

definition iterrows :: "dataframe \<Rightarrow> row list" where
  "iterrows df = map (zip (columns df)) (cells df)"

text \<open>\<^verbatim>\<open>InputData[name]\<close>: the cells of a column, \<^verbatim>\<open>KeyError\<close> when the frame has no such
  column. A name that is not a string is no column of a frame read from CSV.\<close>

fun frame_getcol :: "dataframe \<Rightarrow> json \<Rightarrow> exn + pyval list" where
  "frame_getcol df (JStr n) =
     (if n \<in> set (columns df) then Inr (map (\<lambda>cs. row_get (zip (columns df) cs) n) (cells df))
      else Inl KeyError)"
| "frame_getcol df j = Inl KeyError"

definition col_index :: "string list \<Rightarrow> string \<Rightarrow> nat" where
  "col_index cols n = length (takeWhile (\<lambda>c. c \<noteq> n) cols)"

definition frame_setcol :: "dataframe \<Rightarrow> string \<Rightarrow> pyval list \<Rightarrow> dataframe" where
  "frame_setcol df n vs =
     df\<lparr>cells := map (\<lambda>(cs, v). cs[col_index (columns df) n := v]) (zip (cells df) vs)\<rparr>"

fun mapM_exn :: "('a \<Rightarrow> exn + 'b) \<Rightarrow> 'a list \<Rightarrow> exn + 'b list" where
  "mapM_exn f [] = Inr []"
| "mapM_exn f (x # xs) = bind (f x) (\<lambda>y. bind (mapM_exn f xs) (\<lambda>ys. Inr (y # ys)))"

text \<open>
  \<^verbatim>\<open>sort_values\<close> orders rows by keys: missing values (\<^verbatim>\<open>None\<close>, NaN, \<^verbatim>\<open>NaT\<close>) last,
  numbers by value, strings by their characters, timestamps by instant. The sort of the
  model is stable. A column that mixes numbers, strings and timestamps cannot be compared
  (\<^verbatim>\<open>TypeError\<close>).
\<close>

type_synonym tskey = "nat \<times> nat \<times> nat \<times> nat \<times> nat \<times> nat \<times> nat \<times> nat"

definition ts_key :: "timestamp \<Rightarrow> tskey" where
  "ts_key t =
     (year t, month t, day t, hour t, minute t, second t, microsecond t, nanosecond t)"

definition ts_zero :: tskey where
  "ts_zero = (0, 0, 0, 0, 0, 0, 0, 0)"

type_synonym cellkey = "bool \<times> nat \<times> rat \<times> string \<times> tskey"

fun cell_key :: "pyval \<Rightarrow> cellkey" where
  "cell_key PNone = (True, 0, 0, [], ts_zero)"
| "cell_key PNaT = (True, 0, 0, [], ts_zero)"
| "cell_key (PFloat FNaN) = (True, 0, 0, [], ts_zero)"
| "cell_key (PFloat FNegInf) = (False, 0, 0, [], ts_zero)"
| "cell_key (PFloat (FNum q)) = (False, 1, q, [], ts_zero)"
| "cell_key (PFloat FInf) = (False, 2, 0, [], ts_zero)"
| "cell_key (PBool b) = (False, 1, if b then 1 else 0, [], ts_zero)"
| "cell_key (PInt i) = (False, 1, of_int i, [], ts_zero)"
| "cell_key (PStr s) = (False, 1, 0, s, ts_zero)"
| "cell_key (PTimestamp t) = (False, 1, 0, [], ts_key t)"

fun cell_class :: "pyval \<Rightarrow> nat option" where
  "cell_class PNone = None"
| "cell_class PNaT = None"
| "cell_class (PFloat FNaN) = None"
| "cell_class (PFloat f) = Some 0"
| "cell_class (PBool b) = Some 0"
| "cell_class (PInt i) = Some 0"
| "cell_class (PStr s) = Some 1"
| "cell_class (PTimestamp t) = Some 2"

definition comparable :: "pyval list \<Rightarrow> bool" where
  "comparable col = (length (remdups (List.map_filter cell_class col)) \<le> 1)"

definition sort_values :: "json list \<Rightarrow> dataframe \<Rightarrow> exn + dataframe" where
  "sort_values by df =
     bind (mapM_exn (frame_getcol df) by) (\<lambda>cols.
       if list_all comparable cols then
         Inr (df\<lparr>cells :=
           sort_key (\<lambda>cs. map (\<lambda>b. case b of JStr n \<Rightarrow> cell_key (row_get (zip (columns df) cs) n)
                                        | _ \<Rightarrow> cell_key PNone) by) (cells df)\<rparr>)
       else Inl TypeError)"

subsection \<open>Reading and preparing a file (lines 271 to 280)\<close>

text \<open>\<^verbatim>\<open>self.mapInfo[key]['name']\<close>, outside any \<^verbatim>\<open>try\<close>.\<close>

definition mapInfo_name :: "(string \<times> json) list \<Rightarrow> string \<Rightarrow> exn + json" where
  "mapInfo_name mapInfo key =
     (case map_of mapInfo key of
        None \<Rightarrow> Inl KeyError
      | Some rule \<Rightarrow> json_getitem rule ''name'')"

text \<open>The argument \<open>csv\<close> is what \<^verbatim>\<open>pd.read_csv(weightFile)\<close> does: it returns a frame or
  raises. The timestamp column is then converted cell by cell, and the rows are sorted when
  \<^verbatim>\<open>sortData\<close> is set.\<close>

definition prepareInput ::
  "pylib \<Rightarrow> (string \<times> json) list \<Rightarrow> bool \<Rightarrow> bool \<Rightarrow> json \<Rightarrow> exn + dataframe
     \<Rightarrow> exn + dataframe" where
  "prepareInput L mapInfo filterByUser sortData dateTimeFormat csv =
     bind csv (\<lambda>InputData.
     bind (mapInfo_name mapInfo ''timestamp'') (\<lambda>tsname.
     bind (frame_getcol InputData tsname) (\<lambda>col.
     bind (mapM_exn (to_datetime L dateTimeFormat) col) (\<lambda>converted.
       (case tsname of
          JStr n \<Rightarrow>
            (let InputData1 = frame_setcol InputData n converted in
             if sortData then
               (if filterByUser then
                  bind (mapInfo_name mapInfo ''userName'') (\<lambda>uname.
                    sort_values [uname, tsname] InputData1)
                else sort_values [tsname] InputData1)
             else Inr InputData1)
        | _ \<Rightarrow> Inl KeyError)))))"

subsection \<open>The loop over the rows (lines 284 to 292)\<close>

text \<open>\<^verbatim>\<open>not self.lastDate or (dateISOformat >= self.lastDate)\<close>: a string is compared
  with a string character by character; comparing it with a watermark that is no string
  raises \<^verbatim>\<open>TypeError\<close>.\<close>

definition watermark_ok :: "json \<Rightarrow> string \<Rightarrow> exn + bool" where
  "watermark_ok lastDate dateISOformat =
     (if \<not> json_truthy lastDate then Inr True
      else (case lastDate of JStr w \<Rightarrow> Inr (dateISOformat \<ge> w) | _ \<Rightarrow> Inl TypeError))"

text \<open>\<^verbatim>\<open>findRecord\<close>: the rows of the record set whose timestamp equals the given one.\<close>

definition findRecord :: "row list \<Rightarrow> pyval \<Rightarrow> row list" where
  "findRecord bc ts = filter (\<lambda>r. ts_eq (row_get r ''timestamp'') ts) bc"

text \<open>One turn of the loop, on the record set and the counter \<^verbatim>\<open>insertedItems\<close>.\<close>

definition processRow ::
  "pylib \<Rightarrow> (string \<times> json) list \<Rightarrow> json \<Rightarrow> bool \<Rightarrow> json \<Rightarrow> row \<Rightarrow> row list \<times> nat
     \<Rightarrow> exn + (row list \<times> nat)" where
  "processRow L mapInfo lastDate filterByUser user rowInput acc =
     bind (if \<not> filterByUser then Inr True
           else bind (getMappingColumnValue L mapInfo rowInput ''userName'')
                  (\<lambda>u. Inr (py_eq_json u user))) (\<lambda>considered.
       if \<not> considered then Inr acc
       else
         bind (getMappingRowValues L mapInfo rowInput) (\<lambda>rowOutput.
         bind (py_date_isoformat (row_get rowOutput ''timestamp'')) (\<lambda>dateISOformat.
         bind (watermark_ok lastDate dateISOformat) (\<lambda>ok.
           if \<not> ok then Inr acc
           else if validMandatoryValues mapInfo rowOutput
                   \<and> findRecord (fst acc) (row_get rowOutput ''timestamp'') = []
           then Inr (fst acc @ [rowOutput], snd acc + 1)
           else Inr acc))))"

fun processRows ::
  "pylib \<Rightarrow> (string \<times> json) list \<Rightarrow> json \<Rightarrow> bool \<Rightarrow> json \<Rightarrow> row list \<Rightarrow> row list \<times> nat
     \<Rightarrow> exn + (row list \<times> nat)" where
  "processRows L mapInfo lastDate filterByUser user [] acc = Inr acc"
| "processRows L mapInfo lastDate filterByUser user (rowInput # rest) acc =
     bind (processRow L mapInfo lastDate filterByUser user rowInput acc)
       (processRows L mapInfo lastDate filterByUser user rest)"

subsection \<open>The state of the importer\<close>

text \<open>The calls made on the remote account, in the order they are made.\<close>

datatype call =
    GetDailyWeighIns string
  | DeleteWeighIn json string
  | AddBodyComposition string "pyval list"

text \<open>The object \<^verbatim>\<open>self\<close>: the settings document, the mapping rules, the record set, the
  watermark read at start, and the calls its client has made so far. The record set is the
  list of its rows in order, each row the dictionary that was appended; what pandas does
  to the type of a column when a row is appended (a \<^verbatim>\<open>None\<close> of a numeric field may be
  kept as NaN or \<^verbatim>\<open>NaT\<close>) is not modelled.\<close>

record state =
  jsonProperties :: json
  mapInfo :: "(string \<times> json) list"
  BodyComposition :: "row list"
  lastDate :: json
  client_log :: "call list"

record report =
  rows_found :: nat
  rows_discarded :: int
  rows_loaded :: nat

text \<open>A switch of the settings, as the program reads each of them:
  \<^verbatim>\<open>self.getPropertyValue('data', name, 'False') == 'True'\<close> (lines 257, 260, 320, 321).\<close>

definition flag :: "state \<Rightarrow> string \<Rightarrow> bool" where
  "flag st name =
     (getPropertyValue (jsonProperties st) ''data'' name (JStr ''False'') = JStr ''True'')"

subsection \<open>\<^verbatim>\<open>processWeightFile\<close>\<close>

text \<open>Line 295: the record set sorted by timestamp, \<^verbatim>\<open>NaT\<close> last.\<close>

definition sort_by_timestamp :: "row list \<Rightarrow> row list" where
  "sort_by_timestamp bc = sort_key (\<lambda>r. cell_key (row_get r ''timestamp'')) bc"

definition processWeightFile ::
  "pylib \<Rightarrow> state \<Rightarrow> exn + dataframe \<Rightarrow> exn + (state \<times> report)" where
  "processWeightFile L st csv =
     (let filterByUser = flag st ''filterByUser'';
          user = getPropertyValue (jsonProperties st) ''data'' ''user'' JNull;
          dateTimeFormat = getPropertyValue (jsonProperties st) ''data'' ''dateTimeFormat'' JNull;
          sortData = flag st ''sortData''
      in
        if \<not> json_truthy dateTimeFormat then
          Inl (SystemExit ''Date Time Format was not informed.'')
        else if filterByUser \<and> \<not> json_truthy user then
          Inl (SystemExit ''Filter user was not informed.'')
        else
          bind (prepareInput L (mapInfo st) filterByUser sortData dateTimeFormat csv)
            (\<lambda>InputData.
          bind (processRows L (mapInfo st) (lastDate st) filterByUser user (iterrows InputData)
                  (BodyComposition st, 0)) (\<lambda>acc.
            Inr (st\<lparr>BodyComposition := sort_by_timestamp (fst acc)\<rparr>,
                 \<lparr>rows_found = length (cells InputData),
                  rows_discarded = int (length (cells InputData)) - int (snd acc),
                  rows_loaded = snd acc\<rparr>))))"

text \<open>The loop of \<^verbatim>\<open>loadDataFromWeightFilesFolder\<close> (lines 316 and 317) over the files the
  folder holds, each given by what \<^verbatim>\<open>pd.read_csv\<close> does on it.\<close>

fun processFiles :: "pylib \<Rightarrow> state \<Rightarrow> (exn + dataframe) list \<Rightarrow> exn + (state \<times> report list)" where
  "processFiles L st [] = Inr (st, [])"
| "processFiles L st (csv # files) =
     bind (processWeightFile L st csv) (\<lambda>(st1, rep).
     bind (processFiles L st1 files) (\<lambda>(st2, reps). Inr (st2, rep # reps)))"

section \<open>The importer\<close>

text \<open>
  The remote account is outside the program: a client answers each call with a JSON value
  or raises, and its answer may depend on the calls made before. Every call is logged in
  the state before its answer is used. A step returns the state it has reached together
  with the exception it raised, if any, so that what was changed before a failure can be
  read off.
\<close>

type_synonym client = "call list \<Rightarrow> call \<Rightarrow> exn + json"

definition call_client :: "client \<Rightarrow> call \<Rightarrow> state \<Rightarrow> state \<times> (exn + json)" where
  "call_client cl c st = (st\<lparr>client_log := client_log st @ [c]\<rparr>, cl (client_log st) c)"

fun dict_set :: "string \<Rightarrow> json \<Rightarrow> (string \<times> json) list \<Rightarrow> (string \<times> json) list" where
  "dict_set k v [] = [(k, v)]"
| "dict_set k v ((k', v') # kvs) = (if k' = k then (k, v) # kvs else (k', v') # dict_set k v kvs)"

text \<open>\<^verbatim>\<open>self.jsonProperties['data']['lastDate'] = dateISOformat\<close> (line 336).\<close>

definition set_lastDate :: "json \<Rightarrow> string \<Rightarrow> exn + json" where
  "set_lastDate jp d =
     (case jp of
        JObj doc \<Rightarrow>
          (case map_of doc ''data'' of
             None \<Rightarrow> Inl KeyError
           | Some (JObj kvs) \<Rightarrow>
               Inr (JObj (dict_set ''data'' (JObj (dict_set ''lastDate'' (JStr d) kvs)) doc))
           | Some other \<Rightarrow> Inl TypeError)
      | _ \<Rightarrow> Inl TypeError)"

text \<open>\<^verbatim>\<open>row['timestamp'].isoformat()\<close>, called once \<^verbatim>\<open>.date()\<close> has succeeded.\<close>

fun py_isoformat :: "pyval \<Rightarrow> string" where
  "py_isoformat (PTimestamp t) = date_isoformat t @ ''T'' @ time_str t"
| "py_isoformat v = ''NaT''"

text \<open>Lines 341 and 342: one deletion for each entry of the day.\<close>

fun deleteAll :: "client \<Rightarrow> string \<Rightarrow> json list \<Rightarrow> state \<Rightarrow> state \<times> exn option" where
  "deleteAll cl d [] st = (st, None)"
| "deleteAll cl d (w # ws) st =
     (case json_getitem w ''samplePk'' of
        Inl e \<Rightarrow> (st, Some e)
      | Inr pk \<Rightarrow>
          (case call_client cl (DeleteWeighIn pk d) st of
             (st1, Inl e) \<Rightarrow> (st1, Some e)
           | (st1, Inr res) \<Rightarrow> deleteAll cl d ws st1))"

text \<open>Lines 339 to 342. A true value of \<^verbatim>\<open>dateWeightList\<close> that is no list cannot be
  iterated into entries with a key \<^verbatim>\<open>samplePk\<close>.\<close>

definition deleteOld :: "client \<Rightarrow> bool \<Rightarrow> string \<Rightarrow> json \<Rightarrow> state \<Rightarrow> state \<times> exn option" where
  "deleteOld cl deleteOldData d daily_weigh_ins st =
     (if \<not> deleteOldData then (st, None)
      else
        (case json_getitem daily_weigh_ins ''dateWeightList'' of
           Inl e \<Rightarrow> (st, Some e)
         | Inr lst \<Rightarrow>
             if \<not> json_truthy lst then (st, None)
             else (case lst of JArr ws \<Rightarrow> deleteAll cl d ws st | _ \<Rightarrow> (st, Some TypeError))))"

text \<open>Lines 333 to 342, run for the first record of a date.\<close>

definition enterDate :: "client \<Rightarrow> bool \<Rightarrow> string \<Rightarrow> state \<Rightarrow> state \<times> exn option" where
  "enterDate cl deleteOldData d st =
     (case set_lastDate (jsonProperties st) d of
        Inl e \<Rightarrow> (st, Some e)
      | Inr jp \<Rightarrow>
          (case call_client cl (GetDailyWeighIns d) (st\<lparr>jsonProperties := jp\<rparr>) of
             (st1, Inl e) \<Rightarrow> (st1, Some e)
           | (st1, Inr daily_weigh_ins) \<Rightarrow> deleteOld cl deleteOldData d daily_weigh_ins st1))"

text \<open>Lines 344 to 358: the push, then the line printed with \<^verbatim>\<open>strftime\<close>, which \<^verbatim>\<open>NaT\<close>
  does not support.\<close>

definition push_call :: "row \<Rightarrow> call" where
  "push_call r =
     AddBodyComposition (py_isoformat (row_get r ''timestamp''))
       (map (row_get r) (tl bc_columns))"

definition pushRow :: "client \<Rightarrow> row \<Rightarrow> state \<Rightarrow> state \<times> exn option" where
  "pushRow cl r st =
     (case call_client cl (push_call r) st of
        (st1, Inl e) \<Rightarrow> (st1, Some e)
      | (st1, Inr res) \<Rightarrow>
          (if row_get r ''timestamp'' = PNaT then (st1, Some ValueError) else (st1, None)))"

text \<open>One turn of the loop of \<^verbatim>\<open>loadDataOnGarminConnect\<close>, on the state, the list
  \<^verbatim>\<open>dates\<close> and the counter \<^verbatim>\<open>loadedItems\<close>.\<close>

definition loadRow ::
  "client \<Rightarrow> bool \<Rightarrow> row \<Rightarrow> state \<times> string list \<times> nat
     \<Rightarrow> (state \<times> string list \<times> nat) \<times> exn option" where
  "loadRow cl deleteOldData r acc =
     (case acc of
        (st, dates, loadedItems) \<Rightarrow>
          (case py_date_isoformat (row_get r ''timestamp'') of
             Inl e \<Rightarrow> (acc, Some e)
           | Inr d \<Rightarrow>
               (if d \<in> set dates then
                  (case pushRow cl r st of
                     (st2, Some e) \<Rightarrow> ((st2, dates, loadedItems), Some e)
                   | (st2, None) \<Rightarrow> ((st2, dates, loadedItems + 1), None))
                else
                  (case enterDate cl deleteOldData d st of
                     (st1, Some e) \<Rightarrow> ((st1, dates @ [d], loadedItems), Some e)
                   | (st1, None) \<Rightarrow>
                       (case pushRow cl r st1 of
                          (st2, Some e) \<Rightarrow> ((st2, dates @ [d], loadedItems), Some e)
                        | (st2, None) \<Rightarrow> ((st2, dates @ [d], loadedItems + 1), None))))))"

fun loadRows ::
  "client \<Rightarrow> bool \<Rightarrow> row list \<Rightarrow> state \<times> string list \<times> nat
     \<Rightarrow> (state \<times> string list \<times> nat) \<times> exn option" where
  "loadRows cl deleteOldData [] acc = (acc, None)"
| "loadRows cl deleteOldData (r # rs) acc =
     (case loadRow cl deleteOldData r acc of
        (acc1, Some e) \<Rightarrow> (acc1, Some e)
      | (acc1, None) \<Rightarrow> loadRows cl deleteOldData rs acc1)"

definition loadDataOnGarminConnect :: "client \<Rightarrow> state \<Rightarrow> state \<times> exn option" where
  "loadDataOnGarminConnect cl st =
     (let callAPI = flag st ''callAPI'';
          deleteOldData = flag st ''deleteOldData''
      in
        if callAPI then
          (case loadRows cl deleteOldData (BodyComposition st) (st, [], 0) of
             (acc, e) \<Rightarrow> (fst acc, e))
        else (st, None))"

section \<open>An instance of the library\<close>

text \<open>
  For concrete runs: the conversion of \<^verbatim>\<open>pd.to_datetime\<close> for formats built from the
  directives \<^verbatim>\<open>%Y %m %d %H %M %S\<close> and literal characters. An empty cell (NaN) becomes
  \<^verbatim>\<open>NaT\<close>; text that does not match the format raises \<^verbatim>\<open>ValueError\<close>. The day is
  checked against 1 to 31 only, not against the month, and a space of the format stands for
  one space; the instance is meant for well-formed dates.
\<close>

fun take_upto :: "nat \<Rightarrow> string \<Rightarrow> string \<times> string" where
  "take_upto 0 s = ([], s)"
| "take_upto (Suc k) [] = ([], [])"
| "take_upto (Suc k) (c # cs) =
     (if is_digit c then (case take_upto k cs of (ds, r) \<Rightarrow> (c # ds, r)) else ([], c # cs))"

definition read_field :: "nat \<Rightarrow> nat \<Rightarrow> nat \<Rightarrow> nat \<Rightarrow> string \<Rightarrow> (nat \<times> string) option" where
  "read_field mn mx lo hi s =
     (case take_upto mx s of
        (ds, r) \<Rightarrow>
          if mn \<le> length ds \<and> lo \<le> nat_of_digits (map digit_val ds)
             \<and> nat_of_digits (map digit_val ds) \<le> hi
          then Some (nat_of_digits (map digit_val ds), r)
          else None)"

fun strptime :: "string \<Rightarrow> string \<Rightarrow> timestamp \<Rightarrow> timestamp option" where
  "strptime [] s t = (if s = [] then Some t else None)"
| "strptime [c] s t = (if c \<noteq> CHR ''%'' \<and> s = [c] then Some t else None)"
| "strptime (c # d # f) s t =
     (if c = CHR ''%'' then
        (if d = CHR ''Y'' then
           (case read_field 4 4 0 9999 s of
              None \<Rightarrow> None | Some (v, r) \<Rightarrow> strptime f r (t\<lparr>year := v\<rparr>))
         else if d = CHR ''m'' then
           (case read_field 1 2 1 12 s of
              None \<Rightarrow> None | Some (v, r) \<Rightarrow> strptime f r (t\<lparr>month := v\<rparr>))
         else if d = CHR ''d'' then
           (case read_field 1 2 1 31 s of
              None \<Rightarrow> None | Some (v, r) \<Rightarrow> strptime f r (t\<lparr>day := v\<rparr>))
         else if d = CHR ''H'' then
           (case read_field 1 2 0 23 s of
              None \<Rightarrow> None | Some (v, r) \<Rightarrow> strptime f r (t\<lparr>hour := v\<rparr>))
         else if d = CHR ''M'' then
           (case read_field 1 2 0 59 s of
              None \<Rightarrow> None | Some (v, r) \<Rightarrow> strptime f r (t\<lparr>minute := v\<rparr>))
         else if d = CHR ''S'' then
           (case read_field 1 2 0 61 s of
              None \<Rightarrow> None | Some (v, r) \<Rightarrow> strptime f r (t\<lparr>second := v\<rparr>))
         else None)
      else
        (case s of
           [] \<Rightarrow> None
         | x # xs \<Rightarrow> if x = c then strptime (d # f) xs t else None))"

definition ts_default :: timestamp where
  "ts_default =
     \<lparr>year = 1900, month = 1, day = 1, hour = 0, minute = 0, second = 0,
      microsecond = 0, nanosecond = 0\<rparr>"

fun to_datetime_strptime :: "json \<Rightarrow> pyval \<Rightarrow> exn + pyval" where
  "to_datetime_strptime fmt (PFloat FNaN) = Inr PNaT"
| "to_datetime_strptime fmt PNone = Inr PNaT"
| "to_datetime_strptime fmt PNaT = Inr PNaT"
| "to_datetime_strptime fmt (PTimestamp t) = Inr (PTimestamp t)"
| "to_datetime_strptime (JStr f) (PStr s) =
     (case strptime f s ts_default of
        None \<Rightarrow> Inl ValueError
      | Some t \<Rightarrow> Inr (PTimestamp t))"
| "to_datetime_strptime fmt v = Inl ValueError"

text \<open>The text of a finite float in positional notation, with at most 17 digits after the
  point: what Python prints for the numbers whose shortest decimal text is of that form.\<close>

fun frac_digits :: "nat \<Rightarrow> rat \<Rightarrow> string" where
  "frac_digits 0 q = []"
| "frac_digits (Suc k) q =
     (if q = 0 then []
      else digit_char (nat \<lfloor>q * 10\<rfloor>) # frac_digits k (q * 10 - of_int \<lfloor>q * 10\<rfloor>))"

definition repr_plain :: "rat \<Rightarrow> string" where
  "repr_plain q =
     (if q < 0 then ''-'' else []) @ show_nat (nat \<lfloor>\<bar>q\<bar>\<rfloor>) @ ''.'' @
     (if frac_digits 17 (\<bar>q\<bar> - of_int \<lfloor>\<bar>q\<bar>\<rfloor>) = [] then ''0''
      else frac_digits 17 (\<bar>q\<bar> - of_int \<lfloor>\<bar>q\<bar>\<rfloor>))"

definition lib_plain :: pylib where
  "lib_plain = \<lparr>float_repr = repr_plain, to_datetime = to_datetime_strptime\<rparr>"

section \<open>Concrete settings used in examples\<close>

text \<open>A mapping with a mandatory timestamp passed through unchanged and a mandatory weight
  of type \<^verbatim>\<open>weight\<close>, the settings that go with it, and an importer that has read them
  and holds no record yet.\<close>

definition mapInfo_example :: "(string \<times> json) list" where
  "mapInfo_example =
     [(''timestamp'',
        JObj [(''name'', JStr ''Time''), (''type'', JStr ''raw''), (''mandatory'', JStr ''True'')]),
      (''weight'',
        JObj [(''name'', JStr ''Weight''), (''type'', JStr ''weight''),
              (''mandatory'', JStr ''True'')])]"

definition settings_example :: json where
  "settings_example = JObj [(''data'', JObj [(''dateTimeFormat'', JStr ''%Y-%m-%d %H:%M'')])]"

definition state_example :: state where
  "state_example =
     \<lparr>jsonProperties = settings_example, mapInfo = mapInfo_example, BodyComposition = [],
      lastDate = JNull, client_log = []\<rparr>"

definition frame_example :: dataframe where
  "frame_example =
     \<lparr>columns = [''Time'', ''Weight''],
      cells = [[PStr ''2024-01-01 08:00'', PStr ''70.5kg''],
               [PStr ''2024-01-01 08:00'', PStr ''71.0kg''],
               [PStr ''2024-01-02 08:00'', PFloat FNaN]]\<rparr>"

definition ts_example :: timestamp where
  "ts_example =
     \<lparr>year = 2024, month = 1, day = 1, hour = 8, minute = 0, second = 0,
      microsecond = 0, nanosecond = 0\<rparr>"

definition record_example :: row where
  "record_example =
     [(''timestamp'', PTimestamp ts_example), (''weight'', PFloat (FNum (141 / 2))),
      (''percent_fat'', PNone), (''percent_hydration'', PNone), (''visceral_fat_mass'', PNone),
      (''bone_mass'', PNone), (''muscle_mass'', PNone), (''basal_met'', PNone),
      (''active_met'', PNone), (''physique_rating'', PNone), (''metabolic_age'', PNone),
      (''visceral_fat_rating'', PNone), (''bmi'', PNone)]"

text \<open>A mapping whose timestamp rule has no type (so the type is \<^verbatim>\<open>value\<close>), and a file
  of one row before and after the conversion of its timestamp.\<close>

definition state_untyped_timestamp :: state where
  "state_untyped_timestamp =
     state_example\<lparr>mapInfo := [(''timestamp'', JObj [(''name'', JStr ''Time'')])]\<rparr>"

definition frame_one_row :: dataframe where
  "frame_one_row =
     \<lparr>columns = [''Time'', ''Weight''], cells = [[PStr ''2024-01-01 08:00'', PStr ''70.5kg'']]\<rparr>"

definition frame_one_converted :: dataframe where
  "frame_one_converted =
     \<lparr>columns = [''Time'', ''Weight''], cells = [[PTimestamp ts_example, PStr ''70.5kg'']]\<rparr>"

text \<open>The first row of the example file as the loop sees it, and the importer with a
  watermark.\<close>

definition row_example :: row where
  "row_example = [(''Time'', PTimestamp ts_example), (''Weight'', PStr ''70.5kg'')]"

definition state_watermark :: state where
  "state_watermark = state_example\<lparr>lastDate := JStr ''2024-01-01''\<rparr>"






text \<open>A row is considered by the loop when the user filter is off or its mapped
  \<^verbatim>\<open>userName\<close> equals the configured user (line 285).\<close>

definition considered :: "pylib \<Rightarrow> (string \<times> json) list \<Rightarrow> bool \<Rightarrow> json \<Rightarrow> row \<Rightarrow> bool" where
  "considered L mi filterByUser user r =
     (if filterByUser then
        (case getMappingColumnValue L mi r ''userName'' of
           Inl e \<Rightarrow> False
         | Inr u \<Rightarrow> py_eq_json u user)
      else True)"

text \<open>A record is not before the watermark \<open>w\<close> when the ISO text of its date is not
  below \<open>w\<close> in the order of strings.\<close>

definition not_before :: "string \<Rightarrow> row \<Rightarrow> bool" where
  "not_before w r =
     (case py_date_isoformat (row_get r ''timestamp'') of
        Inl e \<Rightarrow> False
      | Inr d \<Rightarrow> w \<le> d)"

section \<open>Order and timestamps of the record set\<close>

text \<open>
  The timestamps of the record set in order; the proper ones among them (\<^verbatim>\<open>NaT\<close> left
  out); and ascending order, missing timestamps last, as \<^verbatim>\<open>sort_values\<close> leaves it.
  That no two records share a timestamp is \<^const>\<open>distinct\<close> of the timestamps, \<^verbatim>\<open>NaT\<close>
  included.
\<close>

definition timestamps :: "row list \<Rightarrow> pyval list" where
  "timestamps bc = map (\<lambda>r. row_get r ''timestamp'') bc"

fun proper :: "pyval list \<Rightarrow> timestamp list" where
  "proper [] = []"
| "proper (PTimestamp t # vs) = t # proper vs"
| "proper (v # vs) = proper vs"

definition ascending :: "row list \<Rightarrow> bool" where
  "ascending bc = sorted (map cell_key (timestamps bc))"

text \<open>A second file, whose rows are out of order and repeat a timestamp, and the importer
  after the two files.\<close>

definition frame_second :: dataframe where
  "frame_second =
     \<lparr>columns = [''Time'', ''Weight''],
      cells = [[PStr ''2024-01-02 09:30'', PStr ''71.2kg''],
               [PStr ''2023-12-31 07:00'', PStr ''70.9kg''],
               [PStr ''2024-01-01 08:00'', PStr ''99kg'']]\<rparr>"

definition weigh_in :: "timestamp \<Rightarrow> rat \<Rightarrow> row" where
  "weigh_in t w =
     [(''timestamp'', PTimestamp t), (''weight'', PFloat (FNum w)),
      (''percent_fat'', PNone), (''percent_hydration'', PNone), (''visceral_fat_mass'', PNone),
      (''bone_mass'', PNone), (''muscle_mass'', PNone), (''basal_met'', PNone),
      (''active_met'', PNone), (''physique_rating'', PNone), (''metabolic_age'', PNone),
      (''visceral_fat_rating'', PNone), (''bmi'', PNone)]"

definition state_two_files :: state where
  "state_two_files =
     state_example\<lparr>BodyComposition :=
       [weigh_in (ts_example\<lparr>year := 2023, month := 12, day := 31, hour := 7\<rparr>) (709 / 10),
        weigh_in ts_example (141 / 2),
        weigh_in (ts_example\<lparr>day := 2, hour := 9, minute := 30\<rparr>) (356 / 5)]\<rparr>"

text \<open>A file whose only row has an empty timestamp cell, the record it gives, an importer
  whose mapping does not mark the timestamp mandatory, and that importer after one pass
  over the file.\<close>

definition frame_missing :: dataframe where
  "frame_missing = \<lparr>columns = [''Time'', ''Weight''], cells = [[PFloat FNaN, PStr ''70.5kg'']]\<rparr>"

definition record_missing :: row where
  "record_missing =
     [(''timestamp'', PNaT), (''weight'', PFloat (FNum (141 / 2))),
      (''percent_fat'', PNone), (''percent_hydration'', PNone), (''visceral_fat_mass'', PNone),
      (''bone_mass'', PNone), (''muscle_mass'', PNone), (''basal_met'', PNone),
      (''active_met'', PNone), (''physique_rating'', PNone), (''metabolic_age'', PNone),
      (''visceral_fat_rating'', PNone), (''bmi'', PNone)]"

definition state_optional_timestamp :: state where
  "state_optional_timestamp =
     state_example\<lparr>mapInfo :=
       [(''timestamp'', JObj [(''name'', JStr ''Time''), (''type'', JStr ''raw'')]),
        (''weight'',
          JObj [(''name'', JStr ''Weight''), (''type'', JStr ''weight''),
                (''mandatory'', JStr ''True'')])]\<rparr>"

definition state_missing_once :: state where
  "state_missing_once = state_optional_timestamp\<lparr>BodyComposition := [record_missing]\<rparr>"

section \<open>The words of the specification\<close>

text \<open>
  The specification describes the coercion of type \<^verbatim>\<open>weight\<close> as taking "the leading
  numeric token (digits and a single decimal point)" and parsing it as a number. Read
  literally: the longest prefix made of digits and at most one decimal point, a number when
  it holds a digit.
\<close>

fun spec_token_scan :: "bool \<Rightarrow> string \<Rightarrow> string" where
  "spec_token_scan seen [] = []"
| "spec_token_scan seen (c # cs) =
     (if is_digit c then c # spec_token_scan seen cs
      else if c = CHR ''.'' \<and> \<not> seen then c # spec_token_scan True cs
      else [])"

definition spec_weight :: "string \<Rightarrow> pyval" where
  "spec_weight s =
     (if list_ex is_digit (spec_token_scan False s) then
        (case py_float_str (spec_token_scan False s) of
           None \<Rightarrow> PNone
         | Some f \<Rightarrow> PFloat f)
      else PNone)"

section \<open>Properties of the mapping engine\<close>

subsection \<open>Exceptions of the extraction\<close>

lemma bind_Inl_iff: "bind m f = Inl e \<longleftrightarrow> (m = Inl e \<or> (\<exists>x. m = Inr x \<and> f x = Inl e))"
  by (cases m) (auto simp: bind_def)

lemma bind_Inr_iff: "bind m f = Inr y \<longleftrightarrow> (\<exists>x. m = Inr x \<and> f x = Inr y)"
  by (cases m) (auto simp: bind_def)

lemma json_contains_exn: "json_contains k j = Inl e \<Longrightarrow> is_Exception e"
  by (cases j) auto

lemma json_getitem_exn: "json_getitem j k = Inl e \<Longrightarrow> is_Exception e"
  by (cases j) (auto split: option.splits)

lemma series_contains_exn: "series_contains r j = Inl e \<Longrightarrow> is_Exception e"
  by (cases j) auto

lemma series_getitem_exn: "series_getitem r j = Inl e \<Longrightarrow> is_Exception e"
  by (cases j) (auto split: option.splits)

lemma py_float_exn: "py_float v = Inl e \<Longrightarrow> is_Exception e"
  by (cases v) (auto split: option.splits)

lemma coerce_exn: "coerce L t v = Inl e \<Longrightarrow> is_Exception e"
  by (auto simp: coerce_def bind_Inl_iff split: option.splits if_splits dest: py_float_exn)

lemma getMappingColumnValue_try_exn:
  "getMappingColumnValue_try L mi r c = Inl e \<Longrightarrow> is_Exception e"
  unfolding getMappingColumnValue_try_def
  by (auto simp: bind_Inl_iff split: option.splits if_splits
      dest: json_contains_exn json_getitem_exn series_contains_exn series_getitem_exn coerce_exn)

lemma getMappingColumnValue_Inr: "\<exists>v. getMappingColumnValue L mi r c = Inr v"
  unfolding getMappingColumnValue_def
  by (auto split: sum.splits dest: getMappingColumnValue_try_exn)



subsection \<open>The coercion of type \<^verbatim>\<open>weight\<close>\<close>

lemma star_takeWhile: "match_here b [Star c] s = Some (takeWhile (in_class c) s)"
  by (induction s arbitrary: b) auto

lemma caret_not_at_start: "re_search_from False (Caret # p) s = None"
  by (induction s) auto

lemma re_search_weight:
  "re_search weight_regex s =
     (if takeWhile (in_class DigitOrDot) s = [] then None
      else Some (takeWhile (in_class DigitOrDot) s))"
  by (cases s) (auto simp: re_search_def weight_regex_def star_takeWhile caret_not_at_start)

text \<open>
  C8, as amended. For every raw value, a rule of type \<^verbatim>\<open>weight\<close> takes the longest leading
  run of digits and decimal points of the stringified value (the run may hold several
  points) and parses it with \<^verbatim>\<open>float\<close>; the result is absent when the run is empty or when
  \<^verbatim>\<open>float\<close> rejects it.
\<close>

theorem weight_coercion:
  assumes "map_of mi c = Some (JObj rule)"
    and "map_of rule ''name'' = Some (JStr n)"
    and "map_of rule ''type'' = Some (JStr ''weight'')"
    and "map_of r n = Some v"
  shows "getMappingColumnValue L mi r c =
     Inr (if takeWhile (in_class DigitOrDot) (py_str L v) = [] then PNone
          else (case py_float_str (takeWhile (in_class DigitOrDot) (py_str L v)) of
                  None \<Rightarrow> PNone
                | Some f \<Rightarrow> PFloat f))"
  using assms
  by (simp add: getMappingColumnValue_def getMappingColumnValue_try_def bind_def coerce_def
      regex_of_type_def re_search_weight split: option.splits)

theorem weight_coercion_witness:
  "getMappingColumnValue lib_plain mapInfo_example [(''Weight'', PStr ''70.5kg'')] ''weight''
     = Inr (PFloat (FNum (141 / 2)))"
proof -
  have a: "map_of mapInfo_example ''weight'' =
      Some (JObj [(''name'', JStr ''Weight''), (''type'', JStr ''weight''),
                  (''mandatory'', JStr ''True'')])"
    by (simp add: mapInfo_example_def)
  have "getMappingColumnValue lib_plain mapInfo_example [(''Weight'', PStr ''70.5kg'')] ''weight''
      = Inr (if takeWhile (in_class DigitOrDot) (py_str lib_plain (PStr ''70.5kg'')) = []
             then PNone
             else (case py_float_str
                         (takeWhile (in_class DigitOrDot) (py_str lib_plain (PStr ''70.5kg''))) of
                     None \<Rightarrow> PNone
                   | Some f \<Rightarrow> PFloat f))"
    by (rule weight_coercion [OF a]) simp_all
  also have "\<dots> = Inr (PFloat (FNum (141 / 2)))"
    by code_simp
  finally show ?thesis .
qed

text \<open>C8 as stated fails on the text \<^verbatim>\<open>1.2.3kg\<close>: it begins with the numeric token
  \<^verbatim>\<open>1.2\<close>, which the specification's words turn into the number 1.2, while the program
  matches \<^verbatim>\<open>1.2.3\<close>, fails to parse it and yields \<^verbatim>\<open>None\<close>.\<close>

theorem weight_coercion_counterexample:
  "spec_weight ''1.2.3kg'' = PFloat (FNum (6 / 5)) \<and>
   getMappingColumnValue lib_plain mapInfo_example [(''Weight'', PStr ''1.2.3kg'')] ''weight''
     = Inr PNone"
  by code_simp

section \<open>Properties of the settings\<close>

text \<open>
  C10. A switch of the settings (\<^verbatim>\<open>filterByUser\<close>, \<^verbatim>\<open>sortData\<close>, \<^verbatim>\<open>callAPI\<close>,
  \<^verbatim>\<open>deleteOldData\<close>, each read through \<^const>\<open>flag\<close>) is on exactly when the section
  \<^verbatim>\<open>data\<close> of the settings holds the string \<^verbatim>\<open>True\<close> under its name, and a mapping rule is
  mandatory exactly when it is a dictionary whose entry \<^verbatim>\<open>mandatory\<close> is the string
  \<^verbatim>\<open>True\<close>. Every other value, the JSON boolean \<^verbatim>\<open>true\<close> and the string \<^verbatim>\<open>true\<close> among
  them, and a missing entry, count as false.
\<close>

theorem flags_exact_True:
  "(flag st name \<longleftrightarrow>
      (\<exists>doc kvs. jsonProperties st = JObj doc \<and> map_of doc ''data'' = Some (JObj kvs)
         \<and> map_of kvs name = Some (JStr ''True''))) \<and>
   (isMandatory mi key \<longleftrightarrow>
      (\<exists>rule. map_of mi key = Some (JObj rule) \<and> map_of rule ''mandatory'' = Some (JStr ''True'')))"
proof
  show "flag st name \<longleftrightarrow>
      (\<exists>doc kvs. jsonProperties st = JObj doc \<and> map_of doc ''data'' = Some (JObj kvs)
         \<and> map_of kvs name = Some (JStr ''True''))"
  proof (cases "jsonProperties st")
    case (JObj doc)
    show ?thesis
    proof (cases "map_of doc ''data''")
      case None
      with JObj show ?thesis by (simp add: flag_def getPropertyValue_def bind_def)
    next
      case (Some sec)
      with JObj show ?thesis
        by (cases sec) (auto simp: flag_def getPropertyValue_def bind_def split: option.splits)
    qed
  qed (simp_all add: flag_def getPropertyValue_def bind_def)
next
  show "isMandatory mi key \<longleftrightarrow>
      (\<exists>rule. map_of mi key = Some (JObj rule) \<and> map_of rule ''mandatory'' = Some (JStr ''True''))"
  proof (cases "map_of mi key")
    case None
    then show ?thesis by (simp add: isMandatory_def)
  next
    case (Some rule)
    then show ?thesis by (cases rule) (auto simp: isMandatory_def split: option.splits)
  qed
qed

section \<open>Properties of the importer\<close>

text \<open>
  C6. When the switch \<^verbatim>\<open>callAPI\<close> is off, \<^const>\<open>loadDataOnGarminConnect\<close> returns the
  state it was given, whatever the record set holds and whatever the client would answer:
  the log of remote calls gains no entry (no fetch, no deletion, no push), the settings
  document and its \<^verbatim>\<open>lastDate\<close> are unchanged, and nothing is raised.
\<close>

theorem dry_run_frame:
  "\<not> flag st ''callAPI'' \<Longrightarrow> loadDataOnGarminConnect cl st = (st, None)"
  by (simp add: loadDataOnGarminConnect_def)

theorem dry_run_frame_witness:
  "\<not> flag (state_example\<lparr>BodyComposition := [record_example]\<rparr>) ''callAPI'' \<and>
   loadDataOnGarminConnect (\<lambda>log c. Inr JNull) (state_example\<lparr>BodyComposition := [record_example]\<rparr>)
     = (state_example\<lparr>BodyComposition := [record_example]\<rparr>, None)"
proof -
  have off: "\<not> flag (state_example\<lparr>BodyComposition := [record_example]\<rparr>) ''callAPI''"
    by (simp add: flag_def state_example_def settings_example_def getPropertyValue_def bind_def)
  from off dry_run_frame [OF off] show ?thesis by simp
qed

subsection \<open>Entering a date\<close>











section \<open>Properties of the CSV normalizer\<close>

text \<open>
  C3. With a mapping that marks the timestamp and the weight mandatory (the weight of type
  \<^verbatim>\<open>weight\<close>, the timestamp passed through), no watermark, and an empty record set, the
  file with the rows (2024-01-01 08:00, 70.5kg), (2024-01-01 08:00, 71.0kg) and
  (2024-01-02 08:00, empty) leaves exactly one record, of 2024-01-01 08:00 with weight 70.5,
  and the report says 3 rows found, 2 discarded, 1 loaded.
\<close>

theorem scenario_three_rows:
  "processWeightFile lib_plain state_example (Inr frame_example) =
     Inr (state_example\<lparr>BodyComposition := [record_example]\<rparr>,
          \<lparr>rows_found = 3, rows_discarded = 2, rows_loaded = 1\<rparr>)"
  by code_simp

subsection \<open>Failures on the timestamp\<close>

lemma getMappingRowValues_loop_Inr: "\<exists>ro. getMappingRowValues_loop L mi r ks = Inr ro"
proof (induction ks)
  case Nil
  show ?case by simp
next
  case (Cons k ks)
  obtain v where "getMappingColumnValue L mi r k = Inr v"
    using getMappingColumnValue_Inr by blast
  with Cons show ?case by (auto simp: bind_def)
qed

lemma getMappingRowValues_Inr: "\<exists>ro. getMappingRowValues L mi r = Inr ro"
  by (simp add: getMappingRowValues_def getMappingRowValues_loop_Inr)

lemma getMappingRowValues_timestamp:
  assumes "getMappingRowValues L mi r = Inr ro"
    and "getMappingColumnValue L mi r ''timestamp'' = Inr v"
  shows "row_get ro ''timestamp'' = v"
  using assms
  by (auto simp: getMappingRowValues_def bc_columns_def bind_Inr_iff row_get_def)

lemma considered_bind:
  "bind (if \<not> fbu then Inr True
         else bind (getMappingColumnValue L mi r ''userName'') (\<lambda>u. Inr (py_eq_json u user))) f
   = f (considered L mi fbu user r)"
proof -
  obtain u where "getMappingColumnValue L mi r ''userName'' = Inr u"
    using getMappingColumnValue_Inr by blast
  then show ?thesis by (simp add: considered_def bind_def)
qed

lemma processRow_unfold:
  assumes "getMappingRowValues L mi r = Inr ro"
  shows "processRow L mi ld fbu user r acc =
     (if \<not> considered L mi fbu user r then Inr acc
      else bind (py_date_isoformat (row_get ro ''timestamp'')) (\<lambda>d.
           bind (watermark_ok ld d) (\<lambda>ok.
             if \<not> ok then Inr acc
             else if validMandatoryValues mi ro \<and> findRecord (fst acc) (row_get ro ''timestamp'') = []
             then Inr (fst acc @ [ro], snd acc + 1)
             else Inr acc)))"
  unfolding processRow_def considered_bind using assms by (simp add: bind_def)

lemma processRow_absent_timestamp:
  assumes "considered L mi fbu user r"
    and "getMappingColumnValue L mi r ''timestamp'' = Inr PNone"
  shows "processRow L mi ld fbu user r acc = Inl AttributeError"
proof -
  obtain ro where ro: "getMappingRowValues L mi r = Inr ro"
    using getMappingRowValues_Inr by blast
  have "row_get ro ''timestamp'' = PNone"
    using getMappingRowValues_timestamp [OF ro assms(2)] .
  with assms(1) show ?thesis by (simp add: processRow_unfold [OF ro] bind_def)
qed

lemma processRows_raises:
  assumes "r \<in> set rs" and "\<And>acc. \<exists>e. processRow L mi ld fbu user r acc = Inl e"
  shows "\<exists>e. processRows L mi ld fbu user rs acc = Inl e"
  using assms(1)
proof (induction rs arbitrary: acc)
  case Nil
  then show ?case by simp
next
  case (Cons x rs)
  show ?case
  proof (cases "processRow L mi ld fbu user x acc")
    case (Inl e)
    then show ?thesis by (simp add: bind_def)
  next
    case (Inr acc1)
    have "x \<noteq> r" using Inr assms(2) [of acc] by auto
    with Cons.prems have "r \<in> set rs" by auto
    from Cons.IH [OF this, of acc1] Inr show ?thesis by (simp add: bind_def)
  qed
qed

lemma processWeightFile_prepare_fails:
  assumes "\<And>fbu sd fmt. \<exists>e. prepareInput L (mapInfo st) fbu sd fmt csv = Inl e"
  shows "\<exists>e. processWeightFile L st csv = Inl e"
proof -
  obtain e where "prepareInput L (mapInfo st) (flag st ''filterByUser'') (flag st ''sortData'')
      (getPropertyValue (jsonProperties st) ''data'' ''dateTimeFormat'' JNull) csv = Inl e"
    using assms by blast
  then show ?thesis by (simp add: processWeightFile_def Let_def bind_def)
qed

text \<open>
  C9. The timestamp is not covered by the rule that a failed extraction is absent:
  \<^const>\<open>processWeightFile\<close> raises when the mapping has no rule \<^verbatim>\<open>timestamp\<close>, when the
  column the rule names is not in the frame read from the file, and when the extraction of
  the timestamp of a row that the loop considers yields \<^verbatim>\<open>None\<close> (the call
  \<^verbatim>\<open>.date()\<close> on it raises \<^verbatim>\<open>AttributeError\<close>).
\<close>

theorem timestamp_failures_raise:
  "(map_of (mapInfo st) ''timestamp'' = None \<longrightarrow> (\<exists>e. processWeightFile L st csv = Inl e)) \<and>
   (mapInfo_name (mapInfo st) ''timestamp'' = Inr (JStr n) \<and> n \<notin> set (columns df) \<longrightarrow>
      (\<exists>e. processWeightFile L st (Inr df) = Inl e)) \<and>
   (prepareInput L (mapInfo st) (flag st ''filterByUser'') (flag st ''sortData'')
        (getPropertyValue (jsonProperties st) ''data'' ''dateTimeFormat'' JNull) csv = Inr df'
      \<and> r \<in> set (iterrows df')
      \<and> considered L (mapInfo st) (flag st ''filterByUser'')
           (getPropertyValue (jsonProperties st) ''data'' ''user'' JNull) r
      \<and> getMappingColumnValue L (mapInfo st) r ''timestamp'' = Inr PNone \<longrightarrow>
      (\<exists>e. processWeightFile L st csv = Inl e))"
proof (intro conjI impI)
  assume "map_of (mapInfo st) ''timestamp'' = None"
  then have "\<exists>e. prepareInput L (mapInfo st) fbu sd fmt csv = Inl e" for fbu sd fmt
    by (cases csv) (simp_all add: prepareInput_def mapInfo_name_def bind_def)
  then show "\<exists>e. processWeightFile L st csv = Inl e"
    by (rule processWeightFile_prepare_fails)
next
  assume "mapInfo_name (mapInfo st) ''timestamp'' = Inr (JStr n) \<and> n \<notin> set (columns df)"
  then have "\<exists>e. prepareInput L (mapInfo st) fbu sd fmt (Inr df) = Inl e" for fbu sd fmt
    by (simp add: prepareInput_def bind_def)
  then show "\<exists>e. processWeightFile L st (Inr df) = Inl e"
    by (rule processWeightFile_prepare_fails)
next
  assume a: "prepareInput L (mapInfo st) (flag st ''filterByUser'') (flag st ''sortData'')
        (getPropertyValue (jsonProperties st) ''data'' ''dateTimeFormat'' JNull) csv = Inr df'
      \<and> r \<in> set (iterrows df')
      \<and> considered L (mapInfo st) (flag st ''filterByUser'')
           (getPropertyValue (jsonProperties st) ''data'' ''user'' JNull) r
      \<and> getMappingColumnValue L (mapInfo st) r ''timestamp'' = Inr PNone"
  then have "\<exists>e. processRows L (mapInfo st) (lastDate st) (flag st ''filterByUser'')
          (getPropertyValue (jsonProperties st) ''data'' ''user'' JNull) (iterrows df')
          (BodyComposition st, 0) = Inl e"
    by (intro processRows_raises [of r]) (auto simp: processRow_absent_timestamp)
  with a show "\<exists>e. processWeightFile L st csv = Inl e"
    by (auto simp: processWeightFile_def Let_def bind_def)
qed


theorem timestamp_failures_raise_witness:
  "(\<exists>e. processWeightFile lib_plain (state_example\<lparr>mapInfo := []\<rparr>) (Inr frame_example) = Inl e) \<and>
   (\<exists>e. processWeightFile lib_plain state_example (Inr \<lparr>columns = [''Weight''], cells = []\<rparr>) = Inl e) \<and>
   (\<exists>e. processWeightFile lib_plain state_untyped_timestamp (Inr frame_one_row) = Inl e)"
proof (intro conjI)
  have "map_of (mapInfo (state_example\<lparr>mapInfo := []\<rparr>)) ''timestamp'' = None"
    by simp
  with timestamp_failures_raise [of "state_example\<lparr>mapInfo := []\<rparr>" lib_plain "Inr frame_example"]
  show "\<exists>e. processWeightFile lib_plain (state_example\<lparr>mapInfo := []\<rparr>) (Inr frame_example) = Inl e"
    by blast
next
  have "mapInfo_name (mapInfo state_example) ''timestamp'' = Inr (JStr ''Time'')
        \<and> ''Time'' \<notin> set (columns \<lparr>columns = [''Weight''], cells = []\<rparr>)"
    by (simp add: state_example_def mapInfo_example_def mapInfo_name_def)
  with timestamp_failures_raise [of state_example lib_plain _ "''Time''"
         "\<lparr>columns = [''Weight''], cells = []\<rparr>"]
  show "\<exists>e. processWeightFile lib_plain state_example (Inr \<lparr>columns = [''Weight''], cells = []\<rparr>) = Inl e"
    by blast
next
  have "prepareInput lib_plain (mapInfo state_untyped_timestamp) (flag state_untyped_timestamp ''filterByUser'') (flag state_untyped_timestamp ''sortData'')
        (getPropertyValue (jsonProperties state_untyped_timestamp) ''data'' ''dateTimeFormat'' JNull) (Inr frame_one_row) = Inr frame_one_converted
      \<and> [(''Time'', PTimestamp ts_example), (''Weight'', PStr ''70.5kg'')] \<in> set (iterrows frame_one_converted)
      \<and> considered lib_plain (mapInfo state_untyped_timestamp) (flag state_untyped_timestamp ''filterByUser'')
           (getPropertyValue (jsonProperties state_untyped_timestamp) ''data'' ''user'' JNull)
           [(''Time'', PTimestamp ts_example), (''Weight'', PStr ''70.5kg'')]
      \<and> getMappingColumnValue lib_plain (mapInfo state_untyped_timestamp)
           [(''Time'', PTimestamp ts_example), (''Weight'', PStr ''70.5kg'')] ''timestamp'' = Inr PNone"
    by code_simp
  with timestamp_failures_raise [of state_untyped_timestamp lib_plain "Inr frame_one_row" _ _ frame_one_converted
         "[(''Time'', PTimestamp ts_example), (''Weight'', PStr ''70.5kg'')]"]
  show "\<exists>e. processWeightFile lib_plain state_untyped_timestamp (Inr frame_one_row) = Inl e"
    by blast
qed

subsection \<open>The watermark\<close>

lemma processRow_below_watermark:
  assumes "getMappingColumnValue L mi r ''timestamp'' = Inr ts"
    and "py_date_isoformat ts = Inr d" and "w \<noteq> []" and "d < w"
  shows "processRow L mi (JStr w) fbu user r acc = Inr acc"
proof -
  obtain ro where ro: "getMappingRowValues L mi r = Inr ro"
    using getMappingRowValues_Inr by blast
  have "row_get ro ''timestamp'' = ts"
    using getMappingRowValues_timestamp [OF ro assms(1)] .
  with assms show ?thesis
    by (simp add: processRow_unfold [OF ro] bind_def watermark_ok_def not_le)
qed

lemma processRow_no_watermark:
  assumes "\<not> json_truthy ld" and "considered L mi fbu user r"
    and "getMappingRowValues L mi r = Inr ro"
    and "py_date_isoformat (row_get ro ''timestamp'') = Inr d"
    and "validMandatoryValues mi ro"
    and "findRecord (fst acc) (row_get ro ''timestamp'') = []"
  shows "processRow L mi ld fbu user r acc = Inr (fst acc @ [ro], snd acc + 1)"
  using assms by (simp add: processRow_unfold bind_def watermark_ok_def)

lemma processRow_new_not_before:
  assumes "processRow L mi (JStr w) fbu user r acc = Inr acc'" and "w \<noteq> []"
    and "x \<in> set (fst acc')"
  shows "x \<in> set (fst acc) \<or> not_before w x"
proof -
  obtain ro where ro: "getMappingRowValues L mi r = Inr ro"
    using getMappingRowValues_Inr by blast
  from assms show ?thesis
    unfolding processRow_unfold [OF ro]
    by (auto simp: bind_Inr_iff watermark_ok_def not_before_def split: if_splits)
qed

lemma processRows_new_not_before:
  assumes "processRows L mi (JStr w) fbu user rs acc = Inr acc'" and "w \<noteq> []"
    and "x \<in> set (fst acc')"
  shows "x \<in> set (fst acc) \<or> not_before w x"
  using assms
proof (induction rs arbitrary: acc)
  case Nil
  then show ?case by simp
next
  case (Cons r rs)
  from Cons.prems(1) obtain acc1 where
    step: "processRow L mi (JStr w) fbu user r acc = Inr acc1"
    and rest: "processRows L mi (JStr w) fbu user rs acc1 = Inr acc'"
    by (auto simp: bind_Inr_iff)
  from Cons.IH [OF rest Cons.prems(2,3)] have "x \<in> set (fst acc1) \<or> not_before w x" .
  with processRow_new_not_before [OF step Cons.prems(2)] show ?case by blast
qed

lemma processWeightFile_Inr:
  assumes "processWeightFile L st csv = Inr (st', rep)"
  obtains df acc where
    "prepareInput L (mapInfo st) (flag st ''filterByUser'') (flag st ''sortData'')
       (getPropertyValue (jsonProperties st) ''data'' ''dateTimeFormat'' JNull) csv = Inr df"
    "processRows L (mapInfo st) (lastDate st) (flag st ''filterByUser'')
       (getPropertyValue (jsonProperties st) ''data'' ''user'' JNull) (iterrows df)
       (BodyComposition st, 0) = Inr acc"
    "st' = st\<lparr>BodyComposition := sort_by_timestamp (fst acc)\<rparr>"
    "rep = \<lparr>rows_found = length (cells df),
            rows_discarded = int (length (cells df)) - int (snd acc),
            rows_loaded = snd acc\<rparr>"
  using assms
  by (auto simp: processWeightFile_def Let_def bind_Inr_iff split: if_splits)

text \<open>
  C4. A row whose date, as ISO text, is below the configured watermark in the order of
  strings leaves the record set and the counter as they were, whether or not the row is
  valid; so every record a file leaves in the record set was there before or is of a date
  not below the watermark. With no watermark configured (an absent or empty value), a
  considered row that is valid and whose timestamp is not yet in the record set is
  inserted: nothing is skipped on account of its date.
\<close>

theorem watermark_filter:
  "(getMappingColumnValue L mi r ''timestamp'' = Inr ts \<and> py_date_isoformat ts = Inr d
      \<and> w \<noteq> [] \<and> d < w \<longrightarrow>
      processRow L mi (JStr w) fbu user r acc = Inr acc) \<and>
   (processWeightFile L st csv = Inr (st', rep) \<and> lastDate st = JStr w \<and> w \<noteq> [] \<longrightarrow>
      list_all (\<lambda>x. x \<in> set (BodyComposition st) \<or> not_before w x) (BodyComposition st')) \<and>
   (\<not> json_truthy ld \<and> considered L mi fbu user r \<and> getMappingRowValues L mi r = Inr ro
      \<and> py_date_isoformat (row_get ro ''timestamp'') = Inr d
      \<and> validMandatoryValues mi ro \<and> findRecord (fst acc) (row_get ro ''timestamp'') = [] \<longrightarrow>
      processRow L mi ld fbu user r acc = Inr (fst acc @ [ro], snd acc + 1))"
proof (intro conjI impI)
  assume "getMappingColumnValue L mi r ''timestamp'' = Inr ts \<and> py_date_isoformat ts = Inr d
      \<and> w \<noteq> [] \<and> d < w"
  then show "processRow L mi (JStr w) fbu user r acc = Inr acc"
    using processRow_below_watermark [of L mi r ts d w fbu user acc] by blast
next
  assume a: "processWeightFile L st csv = Inr (st', rep) \<and> lastDate st = JStr w \<and> w \<noteq> []"
  then obtain df acc' where
    loop: "processRows L (mapInfo st) (lastDate st) (flag st ''filterByUser'')
       (getPropertyValue (jsonProperties st) ''data'' ''user'' JNull) (iterrows df)
       (BodyComposition st, 0) = Inr acc'"
    and st': "st' = st\<lparr>BodyComposition := sort_by_timestamp (fst acc')\<rparr>"
    by (auto elim: processWeightFile_Inr)
  have "x \<in> set (BodyComposition st) \<or> not_before w x" if "x \<in> set (fst acc')" for x
    using processRows_new_not_before [of L "mapInfo st" w _ _ _ "(BodyComposition st, 0)" acc' x]
      loop a that by simp
  then show "list_all (\<lambda>x. x \<in> set (BodyComposition st) \<or> not_before w x) (BodyComposition st')"
    by (simp add: st' sort_by_timestamp_def list_all_iff)
next
  assume "\<not> json_truthy ld \<and> considered L mi fbu user r \<and> getMappingRowValues L mi r = Inr ro
      \<and> py_date_isoformat (row_get ro ''timestamp'') = Inr d
      \<and> validMandatoryValues mi ro \<and> findRecord (fst acc) (row_get ro ''timestamp'') = []"
  then show "processRow L mi ld fbu user r acc = Inr (fst acc @ [ro], snd acc + 1)"
    using processRow_no_watermark [of ld L mi fbu user r ro d acc] by blast
qed


theorem watermark_filter_witness:
  "processRow lib_plain mapInfo_example (JStr ''2024-06-01'') False JNull row_example ([], 0)
     = Inr ([], 0) \<and>
   list_all (\<lambda>x. x \<in> set (BodyComposition state_watermark) \<or> not_before ''2024-01-01'' x)
     [record_example] \<and>
   processRow lib_plain mapInfo_example JNull False JNull row_example ([], 0)
     = Inr ([record_example], 1)"
proof (intro conjI)
  have "getMappingColumnValue lib_plain mapInfo_example row_example ''timestamp''
          = Inr (PTimestamp ts_example)
        \<and> py_date_isoformat (PTimestamp ts_example) = Inr ''2024-01-01''
        \<and> ''2024-06-01'' \<noteq> [] \<and> ''2024-01-01'' < ''2024-06-01''"
    by code_simp
  with watermark_filter [where L = lib_plain and mi = mapInfo_example and r = row_example
         and ts = "PTimestamp ts_example" and d = "''2024-01-01''" and w = "''2024-06-01''"
         and fbu = False and user = JNull and acc = "([], 0)"]
  show "processRow lib_plain mapInfo_example (JStr ''2024-06-01'') False JNull row_example ([], 0)
     = Inr ([], 0)"
    by blast
next
  have "processWeightFile lib_plain state_watermark (Inr frame_example)
          = Inr (state_watermark\<lparr>BodyComposition := [record_example]\<rparr>,
                 \<lparr>rows_found = 3, rows_discarded = 2, rows_loaded = 1\<rparr>)
        \<and> lastDate state_watermark = JStr ''2024-01-01'' \<and> ''2024-01-01'' \<noteq> []"
    by code_simp
  with watermark_filter [where L = lib_plain and st = state_watermark
         and csv = "Inr frame_example" and w = "''2024-01-01''"
         and st' = "state_watermark\<lparr>BodyComposition := [record_example]\<rparr>"
         and rep = "\<lparr>rows_found = 3, rows_discarded = 2, rows_loaded = 1\<rparr>"]
  show "list_all (\<lambda>x. x \<in> set (BodyComposition state_watermark) \<or> not_before ''2024-01-01'' x)
     [record_example]"
    by simp
next
  have "\<not> json_truthy JNull \<and> considered lib_plain mapInfo_example False JNull row_example
        \<and> getMappingRowValues lib_plain mapInfo_example row_example = Inr record_example
        \<and> py_date_isoformat (row_get record_example ''timestamp'') = Inr ''2024-01-01''
        \<and> validMandatoryValues mapInfo_example record_example
        \<and> findRecord (fst ([], 0 :: nat)) (row_get record_example ''timestamp'') = []"
    by code_simp
  with watermark_filter [where L = lib_plain and mi = mapInfo_example and r = row_example
         and d = "''2024-01-01''" and fbu = False and user = JNull and acc = "([], 0)"
         and ld = JNull and ro = record_example]
  show "processRow lib_plain mapInfo_example JNull False JNull row_example ([], 0)
     = Inr ([record_example], 1)"
    by simp
qed

subsection \<open>Order and timestamps of the record set\<close>

text \<open>The sort key orders proper timestamps by instant and puts \<^verbatim>\<open>NaT\<close> after them,
  so an ascending record set is in chronological order.\<close>

lemma cell_key_chronological:
  "cell_key (PTimestamp a) \<le> cell_key (PTimestamp b) \<longleftrightarrow> ts_key a \<le> ts_key b"
  by simp

lemma cell_key_missing_last: "cell_key (PTimestamp a) < cell_key PNaT"
  by simp

lemma ascending_chronological:
  assumes "ascending bc" and "i < j" and "j < length bc"
    and "timestamps bc ! i = PTimestamp a" and "timestamps bc ! j = PTimestamp b"
  shows "ts_key a \<le> ts_key b"
proof -
  have len: "j < length (map cell_key (timestamps bc))"
    using assms(3) by (simp add: timestamps_def)
  have "map cell_key (timestamps bc) ! i \<le> map cell_key (timestamps bc) ! j"
    using assms(1,2) len unfolding ascending_def
    by (intro sorted_nth_mono) simp_all
  with assms(2-5) show ?thesis by (simp add: timestamps_def)
qed

lemma proper_append: "proper (xs @ ys) = proper xs @ proper ys"
  by (induction xs rule: proper.induct) auto

lemma set_proper: "set (proper vs) = {t. PTimestamp t \<in> set vs}"
  by (induction vs rule: proper.induct) auto

lemma findRecord_empty_iff:
  "findRecord bc v = [] \<longleftrightarrow> (\<forall>t. v = PTimestamp t \<longrightarrow> t \<notin> set (proper (timestamps bc)))"
proof (cases v)
  case (PTimestamp t)
  have "ts_eq u (PTimestamp t) \<longleftrightarrow> u = PTimestamp t" for u
    by (cases u) auto
  then show ?thesis
    using PTimestamp
    by (force simp: findRecord_def timestamps_def set_proper filter_empty_conv image_iff)
qed (auto simp: findRecord_def filter_empty_conv elim: ts_eq.elims)

lemma processRow_distinct:
  assumes "processRow L mi ld fbu user r acc = Inr acc'"
    and "distinct (proper (timestamps (fst acc)))"
  shows "distinct (proper (timestamps (fst acc')))"
proof -
  obtain ro where ro: "getMappingRowValues L mi r = Inr ro"
    using getMappingRowValues_Inr by blast
  have new: "distinct (proper (timestamps (fst acc @ [ro])))"
    if "findRecord (fst acc) (row_get ro ''timestamp'') = []"
    using that assms(2)
    by (cases "row_get ro ''timestamp''")
       (auto simp: findRecord_empty_iff timestamps_def proper_append)
  from assms(1) show ?thesis
    unfolding processRow_unfold [OF ro]
    using assms(2) new
    by (auto simp: bind_Inr_iff split: if_splits)
qed

lemma processRows_distinct:
  assumes "processRows L mi ld fbu user rs acc = Inr acc'"
    and "distinct (proper (timestamps (fst acc)))"
  shows "distinct (proper (timestamps (fst acc')))"
  using assms
proof (induction rs arbitrary: acc)
  case Nil
  then show ?case by simp
next
  case (Cons r rs)
  from Cons.prems(1) obtain acc1 where
    step: "processRow L mi ld fbu user r acc = Inr acc1"
    and rest: "processRows L mi ld fbu user rs acc1 = Inr acc'"
    by (auto simp: bind_Inr_iff)
  from Cons.IH [OF rest processRow_distinct [OF step Cons.prems(2)]] show ?case .
qed

lemma proper_insort:
  "distinct (proper (map f (insort_key k x xs))) = distinct (proper (map f (x # xs)))"
proof (induction xs)
  case Nil
  show ?case by simp
next
  case (Cons y ys)
  then show ?case
    by (cases "f x"; cases "f y") (auto simp: set_proper set_insort_key)
qed

lemma proper_sort: "distinct (proper (map f (sort_key k xs))) = distinct (proper (map f xs))"
proof (induction xs)
  case Nil
  show ?case by simp
next
  case (Cons x xs)
  have "distinct (proper (map f (sort_key k (x # xs))))
      = distinct (proper (map f (x # sort_key k xs)))"
    by (simp add: proper_insort)
  also have "\<dots> = distinct (proper (map f (x # xs)))"
    using Cons by (cases "f x") (auto simp: set_proper)
  finally show ?case .
qed

lemma processWeightFile_invariant:
  assumes "processWeightFile L st csv = Inr (st', rep)"
  shows "ascending (BodyComposition st')"
    and "distinct (proper (timestamps (BodyComposition st))) \<Longrightarrow>
         distinct (proper (timestamps (BodyComposition st')))"
proof -
  from assms obtain df acc where
    loop: "processRows L (mapInfo st) (lastDate st) (flag st ''filterByUser'')
       (getPropertyValue (jsonProperties st) ''data'' ''user'' JNull) (iterrows df)
       (BodyComposition st, 0) = Inr acc"
    and st': "st' = st\<lparr>BodyComposition := sort_by_timestamp (fst acc)\<rparr>"
    by (auto elim: processWeightFile_Inr)
  have key: "(\<lambda>r. cell_key (row_get r ''timestamp'')) = cell_key \<circ> (\<lambda>r. row_get r ''timestamp'')"
    by (simp add: fun_eq_iff)
  show "ascending (BodyComposition st')"
    using sorted_sort_key [of "\<lambda>r. cell_key (row_get r ''timestamp'')" "fst acc"]
    by (simp add: st' ascending_def timestamps_def sort_by_timestamp_def comp_def)
  assume "distinct (proper (timestamps (BodyComposition st)))"
  with processRows_distinct [OF loop] have "distinct (proper (timestamps (fst acc)))"
    by simp
  then show "distinct (proper (timestamps (BodyComposition st')))"
    by (simp add: st' timestamps_def sort_by_timestamp_def proper_sort)
qed

lemma processFiles_invariant:
  assumes "processFiles L st files = Inr (st', reps)"
    and "ascending (BodyComposition st)"
    and "distinct (proper (timestamps (BodyComposition st)))"
  shows "ascending (BodyComposition st') \<and> distinct (proper (timestamps (BodyComposition st')))"
  using assms
proof (induction files arbitrary: st reps)
  case Nil
  then show ?case by simp
next
  case (Cons csv files)
  from Cons.prems(1) obtain st1 rep reps2 where
    one: "processWeightFile L st csv = Inr (st1, rep)"
    and rest: "processFiles L st1 files = Inr (st', reps2)"
    by (auto simp: bind_Inr_iff split: prod.splits)
  from processWeightFile_invariant [OF one] Cons.prems(3)
  have "ascending (BodyComposition st1)" "distinct (proper (timestamps (BodyComposition st1)))"
    by auto
  from Cons.IH [OF rest this] show ?case .
qed

text \<open>
  What holds of every run: after any sequence of files processed without an exception,
  starting from the empty record set, the record set is in ascending order of timestamp
  (missing timestamps last) and its proper timestamps are pairwise different. Records whose
  timestamp is missing are not covered.
\<close>

lemma proper_timestamps_invariant:
  assumes "BodyComposition st = []"
    and "processFiles L st files = Inr (st', reps)"
  shows "ascending (BodyComposition st')
    \<and> distinct (proper (timestamps (BodyComposition st')))"
  using processFiles_invariant [OF assms(2)] assms(1)
  by (simp add: ascending_def timestamps_def)

lemma proper_timestamps_invariant_example:
  "processFiles lib_plain state_example [Inr frame_example, Inr frame_second]
     = Inr (state_two_files,
            [\<lparr>rows_found = 3, rows_discarded = 2, rows_loaded = 1\<rparr>,
             \<lparr>rows_found = 3, rows_discarded = 1, rows_loaded = 2\<rparr>]) \<and>
   ascending (BodyComposition state_two_files) \<and>
   distinct (proper (timestamps (BodyComposition state_two_files)))"
proof -
  have empty: "BodyComposition state_example = []"
    by (simp add: state_example_def)
  have run: "processFiles lib_plain state_example [Inr frame_example, Inr frame_second]
     = Inr (state_two_files,
            [\<lparr>rows_found = 3, rows_discarded = 2, rows_loaded = 1\<rparr>,
             \<lparr>rows_found = 3, rows_discarded = 1, rows_loaded = 2\<rparr>])"
    by code_simp
  from run proper_timestamps_invariant [OF empty run] show ?thesis by simp
qed

text \<open>
  C1 fails on files with an empty timestamp cell. Starting from the empty record set, with
  the mapping of the scenario (timestamp and weight mandatory), two files that each hold
  one row with an empty timestamp and a valid weight leave two records with the same
  timestamp \<^verbatim>\<open>NaT\<close>: the duplicate test of line 289 compares with \<^verbatim>\<open>==\<close>, under which
  \<^verbatim>\<open>NaT\<close> equals nothing, so it never finds the record that is already there.
\<close>

theorem missing_timestamps_repeat:
  "processFiles lib_plain state_example [Inr frame_missing, Inr frame_missing]
     = Inr (state_example\<lparr>BodyComposition := [record_missing, record_missing]\<rparr>,
            [\<lparr>rows_found = 1, rows_discarded = 0, rows_loaded = 1\<rparr>,
             \<lparr>rows_found = 1, rows_discarded = 0, rows_loaded = 1\<rparr>]) \<and>
   \<not> distinct (timestamps [record_missing, record_missing])"
  by code_simp

subsection \<open>Processing a file twice\<close>

text \<open>A second pass over a file inserts nothing and leaves the record set as it is,
  provided the first pass left no record with a missing timestamp.\<close>

lemma py_date_isoformat_Inr:
  "py_date_isoformat v = Inr d \<Longrightarrow> (\<exists>t. v = PTimestamp t) \<or> v = PNaT"
  by (cases v) auto

lemma findRecord_nonempty:
  "PTimestamp t \<in> set (timestamps B) \<Longrightarrow> findRecord B (PTimestamp t) \<noteq> []"
  by (simp add: findRecord_empty_iff set_proper)

lemma findRecord_found:
  "findRecord b v \<noteq> [] \<Longrightarrow> \<exists>t. v = PTimestamp t \<and> PTimestamp t \<in> set (timestamps b)"
  by (auto simp: findRecord_empty_iff set_proper)

lemma processRow_grows:
  assumes "processRow L mi ld fbu user r acc = Inr acc'"
  shows "set (timestamps (fst acc)) \<subseteq> set (timestamps (fst acc'))"
proof -
  obtain ro where ro: "getMappingRowValues L mi r = Inr ro"
    using getMappingRowValues_Inr by blast
  from assms show ?thesis
    unfolding processRow_unfold [OF ro]
    by (auto simp: bind_Inr_iff timestamps_def split: if_splits)
qed

lemma processRows_grows:
  assumes "processRows L mi ld fbu user rs acc = Inr acc'"
  shows "set (timestamps (fst acc)) \<subseteq> set (timestamps (fst acc'))"
  using assms
proof (induction rs arbitrary: acc)
  case Nil
  then show ?case by simp
next
  case (Cons r rs)
  from Cons.prems obtain acc1 where
    step: "processRow L mi ld fbu user r acc = Inr acc1"
    and rest: "processRows L mi ld fbu user rs acc1 = Inr acc'"
    by (auto simp: bind_Inr_iff)
  from processRow_grows [OF step] Cons.IH [OF rest] show ?case by blast
qed

lemma processRow_again:
  assumes step: "processRow L mi ld fbu user r acc = Inr acc1"
    and sub: "set (timestamps (fst acc1)) \<subseteq> set (timestamps B)"
    and nonat: "PNaT \<notin> set (timestamps (fst acc1))"
  shows "processRow L mi ld fbu user r (B, m) = Inr (B, m)"
proof -
  obtain ro where ro: "getMappingRowValues L mi r = Inr ro"
    using getMappingRowValues_Inr by blast
  show ?thesis
  proof (cases "considered L mi fbu user r")
    case False
    then show ?thesis by (simp add: processRow_unfold [OF ro])
  next
    case True
    with step obtain d ok where d: "py_date_isoformat (row_get ro ''timestamp'') = Inr d"
      and ok: "watermark_ok ld d = Inr ok"
      unfolding processRow_unfold [OF ro] by (auto simp: bind_Inr_iff)
    show ?thesis
    proof (cases "ok \<and> validMandatoryValues mi ro")
      case False
      with True d ok show ?thesis by (auto simp: processRow_unfold [OF ro] bind_def)
    next
      case valid: True
      have "\<exists>t. row_get ro ''timestamp'' = PTimestamp t
               \<and> PTimestamp t \<in> set (timestamps (fst acc1))"
      proof (cases "findRecord (fst acc) (row_get ro ''timestamp'') = []")
        case True
        with step \<open>considered L mi fbu user r\<close> d ok valid
        have acc1: "fst acc1 = fst acc @ [ro]"
          unfolding processRow_unfold [OF ro] by (auto simp: bind_def)
        then have mem: "row_get ro ''timestamp'' \<in> set (timestamps (fst acc1))"
          by (simp add: timestamps_def)
        with nonat have "row_get ro ''timestamp'' \<noteq> PNaT" by auto
        with py_date_isoformat_Inr [OF d] mem show ?thesis by auto
      next
        case False
        from findRecord_found [OF False] processRow_grows [OF step] show ?thesis by auto
      qed
      then obtain t where t: "row_get ro ''timestamp'' = PTimestamp t"
        and "PTimestamp t \<in> set (timestamps B)"
        using sub by auto
      then have "findRecord B (row_get ro ''timestamp'') \<noteq> []"
        by (simp add: findRecord_nonempty)
      with True d ok show ?thesis by (simp add: processRow_unfold [OF ro] bind_def)
    qed
  qed
qed

lemma processRows_again:
  assumes "processRows L mi ld fbu user rs acc = Inr acc'"
    and "set (timestamps (fst acc')) \<subseteq> set (timestamps B)"
    and "PNaT \<notin> set (timestamps (fst acc'))"
  shows "processRows L mi ld fbu user rs (B, m) = Inr (B, m)"
  using assms
proof (induction rs arbitrary: acc)
  case Nil
  then show ?case by simp
next
  case (Cons r rs)
  from Cons.prems(1) obtain acc1 where
    step: "processRow L mi ld fbu user r acc = Inr acc1"
    and rest: "processRows L mi ld fbu user rs acc1 = Inr acc'"
    by (auto simp: bind_Inr_iff)
  have grow: "set (timestamps (fst acc1)) \<subseteq> set (timestamps (fst acc'))"
    using processRows_grows [OF rest] .
  have "processRow L mi ld fbu user r (B, m) = Inr (B, m)"
    using processRow_again [OF step] grow Cons.prems(2,3) by blast
  with Cons.IH [OF rest Cons.prems(2,3)] show ?case by (simp add: bind_def)
qed

lemma processWeightFile_second_pass:
  assumes first: "processWeightFile L st csv = Inr (st1, rep1)"
    and nonat: "PNaT \<notin> set (timestamps (BodyComposition st1))"
  shows "processWeightFile L st1 csv =
     Inr (st1, \<lparr>rows_found = rows_found rep1, rows_discarded = int (rows_found rep1),
               rows_loaded = 0\<rparr>)"
proof -
  from first obtain df acc where
    prep: "prepareInput L (mapInfo st) (flag st ''filterByUser'') (flag st ''sortData'')
       (getPropertyValue (jsonProperties st) ''data'' ''dateTimeFormat'' JNull) csv = Inr df"
    and loop: "processRows L (mapInfo st) (lastDate st) (flag st ''filterByUser'')
       (getPropertyValue (jsonProperties st) ''data'' ''user'' JNull) (iterrows df)
       (BodyComposition st, 0) = Inr acc"
    and st1: "st1 = st\<lparr>BodyComposition := sort_by_timestamp (fst acc)\<rparr>"
    and rep1: "rep1 = \<lparr>rows_found = length (cells df),
            rows_discarded = int (length (cells df)) - int (snd acc),
            rows_loaded = snd acc\<rparr>"
    by (auto elim: processWeightFile_Inr)
  have same: "set (timestamps (sort_by_timestamp (fst acc))) = set (timestamps (fst acc))"
    by (simp add: timestamps_def sort_by_timestamp_def)
  have again: "processRows L (mapInfo st) (lastDate st) (flag st ''filterByUser'')
       (getPropertyValue (jsonProperties st) ''data'' ''user'' JNull) (iterrows df)
       (sort_by_timestamp (fst acc), 0) = Inr (sort_by_timestamp (fst acc), 0)"
    using processRows_again [OF loop, of "sort_by_timestamp (fst acc)" 0] same nonat
    by (simp add: st1)
  have sorted: "sort_by_timestamp (sort_by_timestamp (fst acc)) = sort_by_timestamp (fst acc)"
    by (simp add: sort_by_timestamp_def sort_key_id_if_sorted)
  have ok: "json_truthy (getPropertyValue (jsonProperties st) ''data'' ''dateTimeFormat'' JNull)"
    "\<not> (flag st ''filterByUser''
        \<and> \<not> json_truthy (getPropertyValue (jsonProperties st) ''data'' ''user'' JNull))"
    using first by (auto simp: processWeightFile_def Let_def split: if_splits)
  have fl: "flag st1 = flag st"
    by (simp add: fun_eq_iff flag_def st1)
  show ?thesis
    using prep again sorted ok
    by (simp add: processWeightFile_def Let_def fl bind_def rep1) (simp add: st1)
qed

text \<open>
  C5 fails on a file with an empty timestamp cell. The cell is read as NaN and converted
  to \<^verbatim>\<open>NaT\<close>; the row passes the date test, and since \<^verbatim>\<open>NaT\<close> equals no timestamp of
  the record set, the second pass over the same file inserts the row again.
\<close>

theorem second_pass_inserts_missing_timestamp:
  "processWeightFile lib_plain state_optional_timestamp (Inr frame_missing)
     = Inr (state_missing_once, \<lparr>rows_found = 1, rows_discarded = 0, rows_loaded = 1\<rparr>) \<and>
   processWeightFile lib_plain state_missing_once (Inr frame_missing)
     = Inr (state_optional_timestamp\<lparr>BodyComposition := [record_missing, record_missing]\<rparr>,
            \<lparr>rows_found = 1, rows_discarded = 0, rows_loaded = 1\<rparr>)"
  by code_simp

end
